theory Spec2Isabelle
  imports Main
begin

section \<open>Go strings\<close>

text \<open>
  A Go string is a sequence of bytes; here it is a \<open>string\<close> (a list of 8-bit characters),
  so a character outside ASCII is the bytes of its UTF-8 encoding. The functions of package
  \<open>strings\<close> that the program calls are written out for the arguments it passes to them;
  case mapping and white space are those of ASCII (a byte above 127 is left as it is).
\<close>

definition NL :: char where
  "NL = CHR 0x0A"

definition isSpace :: "char \<Rightarrow> bool" where
  "isSpace c = (c \<in> {CHR 0x09, CHR 0x0A, CHR 0x0B, CHR 0x0C, CHR 0x0D, CHR 0x20})"

definition TrimSpace :: "string \<Rightarrow> string" where
  "TrimSpace s = rev (dropWhile isSpace (rev (dropWhile isSpace s)))"

definition HasPrefix :: "string \<Rightarrow> string \<Rightarrow> bool" where
  "HasPrefix s p = (take (length p) s = p)"

definition TrimPrefix :: "string \<Rightarrow> string \<Rightarrow> string" where
  "TrimPrefix s p = (if HasPrefix s p then drop (length p) s else s)"

text \<open>
  \<open>strings.Split(s, sep)\<close>: the pieces of \<open>s\<close> between the occurrences of \<open>sep\<close>, found
  from the left without overlap; \<open>cur\<close> is the piece being read. With an empty separator
  Go splits after each character.
\<close>

fun SplitFrom :: "string \<Rightarrow> string \<Rightarrow> string \<Rightarrow> string list" where
  "SplitFrom sep cur [] = [cur]"
| "SplitFrom sep cur (c # cs) =
     (if sep \<noteq> [] \<and> HasPrefix (c # cs) sep
      then cur # SplitFrom sep [] (drop (length sep - 1) cs)
      else SplitFrom sep (cur @ [c]) cs)"

definition Split :: "string \<Rightarrow> string \<Rightarrow> string list" where
  "Split s sep = (if sep = [] then map (\<lambda>c. [c]) s else SplitFrom sep [] s)"

text \<open>\<open>strings.SplitN(s, sep, 2)\<close> for a one-byte separator: cut at its first occurrence.\<close>

definition SplitN2 :: "string \<Rightarrow> char \<Rightarrow> string list" where
  "SplitN2 s sep =
     (if sep \<in> set s
      then [takeWhile (\<lambda>c. c \<noteq> sep) s, drop 1 (dropWhile (\<lambda>c. c \<noteq> sep) s)]
      else [s])"

definition toLowerByte :: "char \<Rightarrow> char" where
  "toLowerByte c =
     (let n = (of_char c :: nat) in if 65 \<le> n \<and> n \<le> 90 then char_of (n + 32) else c)"

definition ToLower :: "string \<Rightarrow> string" where
  "ToLower s = map toLowerByte s"

text \<open>
  \<open>strings.ReplaceAll(s, old, new)\<close> where \<open>old\<close> and \<open>new\<close> are one byte each, as at both
  call sites (\<open>"/"\<close> by \<open>"-"\<close>, \<open>"-"\<close> by \<open>" "\<close>).
\<close>

definition ReplaceAll :: "string \<Rightarrow> char \<Rightarrow> char \<Rightarrow> string" where
  "ReplaceAll s old new = map (\<lambda>c. if c = old then new else c) s"

section \<open>The data model (package model)\<close>

record PR =
  Number :: int
  Title :: string
  WebURL :: string
  State :: string
  PipelineStatus :: string
  HasUnresolved :: bool
  Draft :: bool
  Forge :: string

record Session =
  Path :: string
  Branch :: string
  Slug :: string
  NeedsInput :: bool
  TmuxRunning :: bool
  PR :: "PR option"

section \<open>Worktree listing (package git)\<close>

definition BranchToSlug :: "string \<Rightarrow> string" where
  "BranchToSlug branch =
     (if branch = [] then ''unknown''
      else ReplaceAll (ToLower branch) (CHR ''/'') (CHR ''-''))"

text \<open>
  The loop of \<open>parseBlock\<close> over the lines of a block; the state is the triple
  \<open>(path, branch, detached)\<close> of its local variables.
\<close>

fun parseLine :: "string \<times> string \<times> bool \<Rightarrow> string \<Rightarrow> string \<times> string \<times> bool" where
  "parseLine (path, branch, detached) line =
     (if HasPrefix line ''worktree '' then (TrimPrefix line ''worktree '', branch, detached)
      else if HasPrefix line ''branch '' then (path, TrimPrefix line ''branch refs/heads/'', detached)
      else if line = ''detached'' then (path, branch, True)
      else (path, branch, detached))"

definition parseBlock :: "string \<Rightarrow> Session option" where
  "parseBlock block =
     (case foldl parseLine ([], [], False) (Split block [NL]) of
        (path, branch, detached) \<Rightarrow>
          if path = [] then None
          else let branch' = (if detached then ''detached'' else branch)
               in Some \<lparr>Path = path, Branch = branch', Slug = BranchToSlug branch',
                         NeedsInput = False, TmuxRunning = False, PR = None\<rparr>)"

definition parseWorktrees :: "string \<Rightarrow> Session list" where
  "parseWorktrees raw =
     List.map_filter (\<lambda>block. parseBlock (TrimSpace block)) (Split (TrimSpace raw) [NL, NL])"

section \<open>The world outside the program\<close>

text \<open>
  The program reads and changes its surroundings only by running \<open>git\<close>, \<open>tmux\<close>, \<open>glab\<close>
  and \<open>gh\<close> and by writing one configuration file. A \<open>World\<close> holds what those calls
  answer: an \<open>Inl\<close> is the error of a call that failed (a non-zero exit, a missing binary,
  an expired timeout), an \<open>Inr\<close> the bytes it printed. The tmux server on the program's
  socket is the list of its sessions, by name, each with its working directory; a name
  is looked up as it is written.
\<close>

record World =
  git_worktree_list :: "string + string"
  tmux_sessions :: "(string \<times> string) list"
  tmux_capture_pane :: "string \<Rightarrow> string \<times> string"
  tmux_new_session_fails :: "string option"
  os_UserConfigDir :: "string + string"
  os_MkdirAll_fails :: "string option"
  os_WriteFile_fails :: "string option"
  files :: "(string \<times> string) list"
  glab_mr_list :: "string \<Rightarrow> string + string"
  gh_pr_list :: "string \<Rightarrow> string + string"
  git_rev_parse_toplevel :: "string + string"
  git_remote_get_url :: "string \<Rightarrow> string + string"
  git_symbolic_ref :: "string \<Rightarrow> string + string"
  glab_repo_view :: "string \<Rightarrow> bool"

text \<open>
  \<open>json.Unmarshal\<close> into a slice of \<open>glabMR\<close> or of \<open>ghPR\<close> is the library's; the
  two decoders are parameters (\<open>Inl\<close> is the decoding error).
\<close>

record glabMR =
  mr_IID :: int
  mr_Title :: string
  mr_State :: string
  mr_WebURL :: string
  mr_Draft :: bool
  mr_Pipeline :: "string option"
  mr_BlockingDiscussionsResolved :: "bool option"

record ghPR =
  gh_Number :: int
  gh_Title :: string
  gh_State :: string
  gh_URL :: string
  gh_IsDraft :: bool
  gh_StatusCheckRollup :: string
  gh_ReviewDecision :: string

record JSON =
  unmarshal_glabMRs :: "string \<Rightarrow> string + glabMR list"
  unmarshal_ghPRs :: "string \<Rightarrow> string + ghPR list"

section \<open>Forge backends (package forge)\<close>

datatype Forge = gitHub | gitLab

fun Kind :: "Forge \<Rightarrow> string" where
  "Kind gitLab = ''gitlab''"
| "Kind gitHub = ''github''"

definition normaliseState :: "string \<Rightarrow> string" where
  "normaliseState s = (if s = ''opened'' then ''open'' else s)"

definition ghState :: "string \<Rightarrow> string" where
  "ghState s =
     (if s = ''OPEN'' then ''open''
      else if s = ''MERGED'' then ''merged''
      else if s = ''CLOSED'' then ''closed''
      else s)"

definition ghCIStatus :: "string \<Rightarrow> string" where
  "ghCIStatus s =
     (if s = ''SUCCESS'' then ''success''
      else if s = ''FAILURE'' \<or> s = ''ERROR'' then ''failed''
      else if s = ''PENDING'' \<or> s = ''EXPECTED'' \<or> s = ''STALE'' then ''pending''
      else if s = [] then []
      else ''pending'')"

text \<open>The loop \<open>for i := range mrs\<close> that stops at the first merge request in state "opened".\<close>

fun firstOpened :: "glabMR list \<Rightarrow> glabMR option" where
  "firstOpened [] = None"
| "firstOpened (m # ms) = (if mr_State m = ''opened'' then Some m else firstOpened ms)"

text \<open>The same loop of the GitHub backend, on state "OPEN".\<close>

fun firstOPEN :: "ghPR list \<Rightarrow> ghPR option" where
  "firstOPEN [] = None"
| "firstOPEN (p # ps) = (if gh_State p = ''OPEN'' then Some p else firstOPEN ps)"

text \<open>The review built from the merge request found (the end of \<open>gitLab.FetchPR\<close>).\<close>

definition glabToPR :: "glabMR \<Rightarrow> PR" where
  "glabToPR found =
     (let pr = \<lparr>Number = mr_IID found, Title = mr_Title found, WebURL = mr_WebURL found,
                State = normaliseState (mr_State found), PipelineStatus = [],
                HasUnresolved = False, Draft = mr_Draft found, Forge = ''gitlab''\<rparr>;
          pr = (case mr_Pipeline found of None \<Rightarrow> pr
                | Some status \<Rightarrow> pr\<lparr>PipelineStatus := status\<rparr>);
          pr = (case mr_BlockingDiscussionsResolved found of None \<Rightarrow> pr
                | Some resolved \<Rightarrow> pr\<lparr>HasUnresolved := \<not> resolved\<rparr>)
      in pr)"

definition ghToPR :: "ghPR \<Rightarrow> PR" where
  "ghToPR found =
     \<lparr>Number = gh_Number found, Title = gh_Title found, WebURL = gh_URL found,
      State = ghState (gh_State found),
      PipelineStatus = ghCIStatus (gh_StatusCheckRollup found),
      HasUnresolved = (gh_ReviewDecision found = ''CHANGES_REQUESTED''
                       \<or> gh_ReviewDecision found = ''REVIEW_REQUIRED''),
      Draft = gh_IsDraft found, Forge = ''github''\<rparr>"

text \<open>
  \<open>FetchPR\<close> returns the pair \<open>(*model.PR, error)\<close>: the review or nil, and the error or
  nil.
\<close>

definition gitLab_FetchPR :: "JSON \<Rightarrow> World \<Rightarrow> string \<Rightarrow> PR option \<times> string option" where
  "gitLab_FetchPR json w branch =
     (case glab_mr_list w branch of
        Inl err \<Rightarrow> (None, None)
      | Inr out \<Rightarrow>
          (case unmarshal_glabMRs json out of
             Inl err \<Rightarrow> (None, None)
           | Inr mrs \<Rightarrow>
               (let found = firstOpened mrs;
                    found = (if found = None \<and> length mrs > 0 then Some (mrs ! 0) else found)
                in case found of
                     None \<Rightarrow> (None, None)
                   | Some mr \<Rightarrow> (Some (glabToPR mr), None))))"

definition gitHub_FetchPR :: "JSON \<Rightarrow> World \<Rightarrow> string \<Rightarrow> PR option \<times> string option" where
  "gitHub_FetchPR json w branch =
     (case gh_pr_list w branch of
        Inl err \<Rightarrow> (None, None)
      | Inr out \<Rightarrow>
          (case unmarshal_ghPRs json out of
             Inl err \<Rightarrow> (None, None)
           | Inr prs \<Rightarrow>
               (let found = firstOPEN prs;
                    found = (if found = None \<and> length prs > 0 then Some (prs ! 0) else found)
                in case found of
                     None \<Rightarrow> (None, None)
                   | Some pr \<Rightarrow> (Some (ghToPR pr), None))))"

text \<open>A call through the \<open>Forge\<close> interface goes to the backend behind it.\<close>

fun FetchPR :: "Forge \<Rightarrow> JSON \<Rightarrow> World \<Rightarrow> string \<Rightarrow> PR option \<times> string option" where
  "FetchPR gitLab json w branch = gitLab_FetchPR json w branch"
| "FetchPR gitHub json w branch = gitHub_FetchPR json w branch"

text \<open>
  The selection rule in the specification's words: among the candidates the forge returned,
  the first one that is open, else the first one returned; nothing when there are none.
\<close>

definition preferOpen :: "('a \<Rightarrow> bool) \<Rightarrow> 'a list \<Rightarrow> 'a option" where
  "preferOpen isOpen cands =
     (case List.find isOpen cands of
        Some c \<Rightarrow> Some c
      | None \<Rightarrow> (case cands of [] \<Rightarrow> None | c # _ \<Rightarrow> Some c))"

section \<open>Background sessions (package tmux)\<close>

definition SessionExists :: "World \<Rightarrow> string \<Rightarrow> bool" where
  "SessionExists w slug = (slug \<in> set (map fst (tmux_sessions w)))"

text \<open>
  \<open>tmux.NeedsInput\<close>, here \<open>NeedsInputProbe\<close> (\<open>NeedsInput\<close> is the field of a session),
  captures the pane twice, 300 ms apart, and compares the bytes; the world gives the two
  captures of a session (a capture that fails is the empty output, its error being
  dropped).
\<close>

definition NeedsInputProbe :: "World \<Rightarrow> string \<Rightarrow> bool" where
  "NeedsInputProbe w slug = (case tmux_capture_pane w slug of (a, b) \<Rightarrow> a = b)"

definition tmux_conf :: string where
  "tmux_conf =
     ''# Deckard tmux config '' @ [CHR 0xE2, CHR 0x80, CHR 0x94] @ '' do not edit manually'' @ [NL] @
     ''# Ctrl+] returns you to the Deckard dashboard without stopping Claude'' @ [NL] @
     ''bind-key -n C-] detach-client'' @ [NL] @
     ''# Mouse wheel / PageUp enters scroll mode so you can read long plans'' @ [NL] @
     ''set -g mouse on'' @ [NL] @
     ''bind-key -n PageUp copy-mode'' @ [NL]"

definition WriteFile :: "string \<Rightarrow> string \<Rightarrow> (string \<times> string) list \<Rightarrow> (string \<times> string) list" where
  "WriteFile p content fs = (p, content) # filter (\<lambda>(q, _). q \<noteq> p) fs"

text \<open>
  \<open>configPath\<close> returns the path of the configuration file or an error, and the world
  with the file written. The path is the configuration directory joined with
  \<open>deckard/tmux.conf\<close>.
\<close>

definition configPath :: "World \<Rightarrow> (string + string) \<times> World" where
  "configPath w =
     (case os_UserConfigDir w of
        Inl err \<Rightarrow> (Inl (''user config dir: '' @ err), w)
      | Inr dir \<Rightarrow>
          (let p = dir @ ''/deckard/tmux.conf'' in
           case os_MkdirAll_fails w of
             Some err \<Rightarrow> (Inl (''mkdir: '' @ err), w)
           | None \<Rightarrow>
               (case os_WriteFile_fails w of
                  Some err \<Rightarrow> (Inl (''write config: '' @ err), w)
                | None \<Rightarrow> (Inr p, w\<lparr>files := WriteFile p tmux_conf (files w)\<rparr>))))"

text \<open>
  \<open>tmux new-session -d -s slug -c path\<close>: it fails with its output when the server cannot
  start a session or when the name is taken, and registers the session otherwise.
\<close>

definition new_session :: "World \<Rightarrow> string \<Rightarrow> string \<Rightarrow> string + World" where
  "new_session w slug path =
     (case tmux_new_session_fails w of
        Some out \<Rightarrow> Inl out
      | None \<Rightarrow>
          if slug \<in> set (map fst (tmux_sessions w)) then Inl (''duplicate session: '' @ slug)
          else Inr (w\<lparr>tmux_sessions := tmux_sessions w @ [(slug, path)]\<rparr>))"

text \<open>\<open>EnsureSession\<close> returns its error (or nil) and the world it leaves.\<close>

definition EnsureSession :: "string \<Rightarrow> string \<Rightarrow> World \<Rightarrow> string option \<times> World" where
  "EnsureSession slug path w =
     (if SessionExists w slug then (None, w)
      else case configPath w of
             (Inl err, w1) \<Rightarrow> (Some err, w1)
           | (Inr cfgPath, w1) \<Rightarrow>
               (case new_session w1 slug path of
                  Inl out \<Rightarrow> (Some (''new-session: '' @ out), w1)
                | Inr w2 \<Rightarrow> (None, w2)))"

section \<open>Repository root, forge detection, default branch\<close>

definition RepoRoot :: "World \<Rightarrow> string \<times> string option" where
  "RepoRoot w =
     (case git_rev_parse_toplevel w of
        Inl err \<Rightarrow> ([], Some (''git rev-parse: '' @ err))
      | Inr out \<Rightarrow> (TrimSpace out, None))"

definition Contains :: "string \<Rightarrow> string \<Rightarrow> bool" where
  "Contains s sub = list_ex (\<lambda>i. HasPrefix (drop i s) sub) [0..<Suc (length s)]"

text \<open>
  \<open>Detect\<close> returns the backend for the repository, or nil (\<open>None\<close>) when the remote is
  unrecognised or there is none. The last probe, \<open>glab repo view\<close>, runs in the
  repository's directory.
\<close>

definition Detect :: "World \<Rightarrow> string \<Rightarrow> Forge option" where
  "Detect w repoRoot =
     (case git_remote_get_url w repoRoot of
        Inl err \<Rightarrow> None
      | Inr out \<Rightarrow>
          (let remote = ToLower (TrimSpace out) in
           if Contains remote ''github.com'' then Some gitHub
           else if Contains remote ''gitlab'' then Some gitLab
           else if glab_repo_view w repoRoot then Some gitLab
           else None))"

definition DefaultBranch :: "World \<Rightarrow> string \<Rightarrow> string" where
  "DefaultBranch w repoRoot =
     (case git_symbolic_ref w repoRoot of
        Inl err \<Rightarrow> ''main''
      | Inr out \<Rightarrow>
          (let ref = TrimSpace out in
           if CHR ''/'' \<in> set ref then drop 1 (dropWhile (\<lambda>c. c \<noteq> CHR ''/'') ref)
           else ''main''))"

definition ListWorktrees :: "World \<Rightarrow> string + Session list" where
  "ListWorktrees w =
     (case git_worktree_list w of
        Inl err \<Rightarrow> Inl (''git worktree list: '' @ err)
      | Inr out \<Rightarrow> Inr (parseWorktrees out))"

section \<open>The enrichment cycle\<close>

text \<open>
  Every probe a cycle makes is recorded, so that a property can say which probes were made
  and which were not.
\<close>

datatype Probe =
    ProbeSessionExists string
  | ProbeNeedsInput string
  | ProbeFetchPR Forge string

text \<open>
  The body of the goroutine that \<open>fetchSessionsCmd\<close> starts for one session: the session
  as it leaves it, and the probes it made. \<open>f\<close> is the model's forge, \<open>None\<close> when
  detection found no backend.
\<close>

definition enrichSession :: "JSON \<Rightarrow> World \<Rightarrow> Forge option \<Rightarrow> Session \<Rightarrow> Session \<times> Probe list" where
  "enrichSession json w f s0 =
     (let s = s0\<lparr>TmuxRunning := SessionExists w (Slug s0)\<rparr>;
          t = [ProbeSessionExists (Slug s0)];
          (s, t) = (if TmuxRunning s
                    then (s\<lparr>NeedsInput := NeedsInputProbe w (Slug s)\<rparr>, t @ [ProbeNeedsInput (Slug s)])
                    else (s, t))
      in case f of
           None \<Rightarrow> (s, t)
         | Some fg \<Rightarrow>
             (let (pr, _) = FetchPR fg json w (Branch s);
                  t = t @ [ProbeFetchPR fg (Branch s)];
                  s = s\<lparr>PR := pr\<rparr>
              in case pr of
                   None \<Rightarrow> (s, t)
                 | Some p \<Rightarrow>
                     (s\<lparr>NeedsInput := (PipelineStatus p = ''failed'' \<or> HasUnresolved p)\<rparr>, t)))"

section \<open>Messages and commands of the event loop (package tui)\<close>

datatype appState =
    stateNormal
  | stateNewSession
  | stateCommitType
  | stateCommit
  | stateDeleteConfirm
  | stateCreatePR
  | stateManagePR

datatype createPRField = fieldTitle | fieldBase | fieldDraft

datatype statusLevel = statusInfo | statusWarn | statusError

text \<open>An \<open>error\<close> in a message is its text, or \<open>None\<close> for nil.\<close>

datatype Msg =
    WindowSizeMsg int int
  | KeyMsg string
  | tickMsg
  | clearStatusMsg
  | sessionsLoadedMsg "Session list" "string option"
  | worktreeCreatedMsg string string "string option"
  | sessionEnsuredMsg string "string option"
  | claudeExitedMsg "string option"
  | commitResultMsg "string option"
  | worktreeRemovedMsg "string option"
  | pushResultMsg "string option"
  | prCreatedMsg "string option"
  | prUpdatedMsg "string option"
  | OtherMsg nat

record CreateOpts =
  opt_Title :: string
  opt_BaseBranch :: string
  opt_Draft :: bool

text \<open>
  A command is a task handed to the runtime; the value says which task and with what
  arguments. \<open>Tick d msg\<close> delivers \<open>msg\<close> after \<open>d\<close> milliseconds. \<open>UpdatePR\<close> carries the
  \<open>Draft\<close> field of its \<open>UpdateOpts\<close> (\<open>None\<close> for the nil pointer). \<open>LibCmd\<close> is a
  command that a widget of the UI library returned.
\<close>

datatype Cmd =
    Tick nat Msg
  | FetchSessions "Forge option"
  | CreateWorktree string string
  | EnsureAndAttach Session
  | ExecAttach string
  | Commit string string
  | Push string string
  | CreatePR "Forge option" string string CreateOpts
  | UpdatePR "Forge option" int "bool option"
  | OpenURL string
  | DeleteWorktree string string string
  | Quit
  | Blink
  | LibCmd nat

definition tickCmd :: Cmd where
  "tickCmd = Tick 120 tickMsg"

definition clearStatusCmd :: Cmd where
  "clearStatusCmd = Tick 3000 clearStatusMsg"

text \<open>
  \<open>fetchSessionsCmd\<close> run by the runtime: the message it returns and the probes made.
  The goroutines write to different sessions and the function waits for all of them, so
  the sessions it returns are those of running the bodies one after the other; the order
  of the probes of different sessions is one of the possible ones.
\<close>

definition fetchSessionsCmd :: "JSON \<Rightarrow> World \<Rightarrow> Forge option \<Rightarrow> Msg \<times> Probe list" where
  "fetchSessionsCmd json w f =
     (case ListWorktrees w of
        Inl err \<Rightarrow> (sessionsLoadedMsg [] (Some err), [])
      | Inr sessions \<Rightarrow>
          (let rs = map (enrichSession json w f) sessions
           in (sessionsLoadedMsg (map fst rs) None, concat (map snd rs))))"

text \<open>\<open>ensureAndAttachCmd\<close> run by the runtime: its message and the world it leaves.\<close>

definition ensureAndAttachCmd :: "Session \<Rightarrow> World \<Rightarrow> Msg \<times> World" where
  "ensureAndAttachCmd s w =
     (case EnsureSession (Slug s) (Path s) w of
        (Some err, w') \<Rightarrow> (sessionEnsuredMsg [] (Some err), w')
      | (None, w') \<Rightarrow> (sessionEnsuredMsg (Slug s) None, w'))"

section \<open>The model of the event loop\<close>

text \<open>
  The list and the text inputs are widgets of the UI library. Their types are the
  parameters \<open>'l\<close> and \<open>'ti\<close>, and the operations the program calls on them are the
  fields of a \<open>UI\<close>; a command that a widget returns is known by a number only.
\<close>

record sessionItem =
  item_s :: Session
  item_spinnerChar :: string

record ('ti, 'l) UI =
  ti_New :: "string \<Rightarrow> nat \<Rightarrow> 'ti"
  ti_Value :: "'ti \<Rightarrow> string"
  ti_SetValue :: "string \<Rightarrow> 'ti \<Rightarrow> 'ti"
  ti_SetPlaceholder :: "string \<Rightarrow> 'ti \<Rightarrow> 'ti"
  ti_Reset :: "'ti \<Rightarrow> 'ti"
  ti_Focus :: "'ti \<Rightarrow> 'ti"
  ti_Blur :: "'ti \<Rightarrow> 'ti"
  ti_Update :: "Msg \<Rightarrow> 'ti \<Rightarrow> 'ti \<times> nat option"
  list_New :: "'l"
  list_Index :: "'l \<Rightarrow> int"
  list_SetItems :: "sessionItem list \<Rightarrow> 'l \<Rightarrow> 'l"
  list_SetSize :: "int \<Rightarrow> int \<Rightarrow> 'l \<Rightarrow> 'l"
  list_Update :: "Msg \<Rightarrow> 'l \<Rightarrow> 'l \<times> nat option"

record ('ti, 'l) Model =
  mlist :: 'l
  sessions :: "Session list"
  width :: int
  height :: int
  loading :: bool
  err :: "string option"
  repoRoot :: string
  forge :: "Forge option"
  state :: appState
  nameInput :: 'ti
  inputErr :: string
  spinnerFrame :: int
  commitType :: string
  createPRTitle :: 'ti
  createPRBase :: 'ti
  createPRDraft :: bool
  createPRField :: createPRField
  statusText :: string
  statusLevel :: statusLevel

record ccType =
  cc_key :: string
  cc_typ :: string
  cc_label :: string

definition commitTypes :: "ccType list" where
  "commitTypes =
     [\<lparr>cc_key = ''f'', cc_typ = ''feat'', cc_label = ''new feature''\<rparr>,
      \<lparr>cc_key = ''x'', cc_typ = ''fix'', cc_label = ''bug fix''\<rparr>,
      \<lparr>cc_key = ''r'', cc_typ = ''refactor'', cc_label = ''code restructure''\<rparr>,
      \<lparr>cc_key = ''d'', cc_typ = ''docs'', cc_label = ''documentation''\<rparr>,
      \<lparr>cc_key = ''t'', cc_typ = ''test'', cc_label = ''tests''\<rparr>,
      \<lparr>cc_key = ''c'', cc_typ = ''chore'', cc_label = ''maintenance''\<rparr>,
      \<lparr>cc_key = ''i'', cc_typ = ''ci'', cc_label = ''CI/CD''\<rparr>,
      \<lparr>cc_key = ''p'', cc_typ = ''perf'', cc_label = ''performance''\<rparr>]"

definition spinnerFrames :: "string list" where
  "spinnerFrames = [''|'', ''/'', ''-'', [CHR 0x5C]]"

text \<open>Go's integer division and remainder round towards zero.\<close>

definition go_quot :: "int \<Rightarrow> int \<Rightarrow> int" where
  "go_quot a b = sgn a * sgn b * (\<bar>a\<bar> div \<bar>b\<bar>)"

definition go_rem :: "int \<Rightarrow> int \<Rightarrow> int" where
  "go_rem a b = sgn a * (\<bar>a\<bar> mod \<bar>b\<bar>)"

definition libCmd :: "nat option \<Rightarrow> Cmd list" where
  "libCmd c = (case c of None \<Rightarrow> [] | Some k \<Rightarrow> [LibCmd k])"

definition New :: "('ti, 'l) UI \<Rightarrow> World \<Rightarrow> ('ti, 'l) Model" where
  "New ui w =
     (let root = fst (RepoRoot w);
          f = Detect w root;
          ti = ti_New ui ''e.g. phase-2-gitlab-mr-linking'' 100;
          prTitle = ti_New ui ''short description'' 120;
          prBase = ti_New ui ''main'' 60;
          prBase = (if root \<noteq> [] then ti_SetValue ui (DefaultBranch w root) prBase
                    else ti_SetValue ui ''main'' prBase)
      in \<lparr>mlist = list_New ui, sessions = [], width = 0, height = 0, loading = True,
          err = None, repoRoot = root, forge = f, state = stateNormal, nameInput = ti,
          inputErr = [], spinnerFrame = 0, commitType = [], createPRTitle = prTitle,
          createPRBase = prBase, createPRDraft = False, createPRField = fieldTitle,
          statusText = [], statusLevel = statusInfo\<rparr>)"

text \<open>
  \<open>buildItems\<close> reads \<open>spinnerFrames[m.spinnerFrame]\<close>; an index out of range is a
  run-time panic, here \<open>None\<close>.
\<close>

definition buildItems :: "('ti, 'l) UI \<Rightarrow> ('ti, 'l) Model \<Rightarrow> ('ti, 'l) Model option" where
  "buildItems ui m =
     (if 0 \<le> spinnerFrame m \<and> spinnerFrame m < int (length spinnerFrames)
      then (let char = spinnerFrames ! nat (spinnerFrame m);
                items = map (\<lambda>s. \<lparr>item_s = s, item_spinnerChar = char\<rparr>) (sessions m)
            in Some (m\<lparr>mlist := list_SetItems ui items (mlist m)\<rparr>))
      else None)"

definition listDimensions :: "('ti, 'l) Model \<Rightarrow> int \<times> int" where
  "listDimensions m = (go_quot (width m) 3, height m - 3)"

definition setStatus :: "statusLevel \<Rightarrow> string \<Rightarrow> ('ti, 'l) Model \<Rightarrow> ('ti, 'l) Model" where
  "setStatus level text m = m\<lparr>statusText := text, statusLevel := level\<rparr>"

definition selectedSession :: "('ti, 'l) UI \<Rightarrow> ('ti, 'l) Model \<Rightarrow> Session option" where
  "selectedSession ui m =
     (if length (sessions m) = 0 then None
      else let idx = list_Index ui (mlist m) in
           if idx < 0 \<or> idx \<ge> int (length (sessions m)) then None
           else Some (sessions m ! nat idx))"

definition slugToTitle :: "string \<Rightarrow> string" where
  "slugToTitle branch =
     (let parts = SplitN2 branch (CHR ''/'');
          slug = (if length parts = 2 then parts ! 0 @ '': '' @ parts ! 1 else parts ! 0)
      in ReplaceAll slug (CHR ''-'') (CHR '' ''))"

text \<open>The two marks that start a status text, as the bytes of their UTF-8 encoding.\<close>

definition mark_ok :: string where
  "mark_ok = [CHR 0xE2, CHR 0x97, CHR 0x86]"

definition mark_fail :: string where
  "mark_fail = [CHR 0xE2, CHR 0x9C, CHR 0x95]"

definition listUpdate :: "('ti, 'l) UI \<Rightarrow> ('ti, 'l) Model \<Rightarrow> Msg \<Rightarrow> ('ti, 'l) Model \<times> Cmd list" where
  "listUpdate ui m msg =
     (case list_Update ui msg (mlist m) of (l, c) \<Rightarrow> (m\<lparr>mlist := l\<rparr>, libCmd c))"

definition nameInputUpdate :: "('ti, 'l) UI \<Rightarrow> ('ti, 'l) Model \<Rightarrow> Msg \<Rightarrow> ('ti, 'l) Model \<times> Cmd list" where
  "nameInputUpdate ui m msg =
     (case ti_Update ui msg (nameInput m) of (t, c) \<Rightarrow> (m\<lparr>nameInput := t\<rparr>, libCmd c))"

definition enterCreatePR :: "('ti, 'l) UI \<Rightarrow> World \<Rightarrow> ('ti, 'l) Model \<Rightarrow> Session \<Rightarrow> ('ti, 'l) Model \<times> Cmd list" where
  "enterCreatePR ui w m s =
     (let m = m\<lparr>state := stateCreatePR, inputErr := [], createPRDraft := False,
                 createPRField := fieldTitle\<rparr>;
          title = slugToTitle (Branch s);
          m = m\<lparr>createPRTitle := ti_Focus ui (ti_SetValue ui title (ti_Reset ui (createPRTitle m)))\<rparr>;
          base = DefaultBranch w (repoRoot m);
          m = m\<lparr>createPRBase := ti_Blur ui (ti_SetValue ui base (ti_Reset ui (createPRBase m)))\<rparr>
      in (m, [Blink]))"

definition updateNormal :: "('ti, 'l) UI \<Rightarrow> World \<Rightarrow> ('ti, 'l) Model \<Rightarrow> Msg \<Rightarrow> ('ti, 'l) Model \<times> Cmd list" where
  "updateNormal ui w m msg =
     (case msg of
        KeyMsg k \<Rightarrow>
          if k = ''ctrl+c'' \<or> k = ''q'' then (m, [Quit])
          else if k = ''r'' then (m\<lparr>loading := True\<rparr>, [FetchSessions (forge m)])
          else if k = ''n'' then
            (m\<lparr>state := stateNewSession, inputErr := [],
               nameInput := ti_Focus ui (ti_Reset ui
                 (ti_SetPlaceholder ui ''e.g. phase-2-gitlab-mr-linking'' (nameInput m)))\<rparr>,
             [Blink])
          else if k = ''c'' then
            (case selectedSession ui m of
               Some s \<Rightarrow> (m\<lparr>state := stateCommitType, commitType := [], inputErr := []\<rparr>, [])
             | None \<Rightarrow> (m, []))
          else if k = ''p'' then
            (case selectedSession ui m of
               Some s \<Rightarrow> (m, [Push (Path s) (Branch s)])
             | None \<Rightarrow> (m, []))
          else if k = ''o'' then
            (case selectedSession ui m of
               Some s \<Rightarrow>
                 (case PR s of
                    Some pr \<Rightarrow> if WebURL pr \<noteq> [] then (m, [OpenURL (WebURL pr)]) else (m, [])
                  | None \<Rightarrow> (m, []))
             | None \<Rightarrow> (m, []))
          else if k = ''m'' then
            (case selectedSession ui m of
               None \<Rightarrow> (m, [])
             | Some s \<Rightarrow>
                 if forge m = None then (m, [])
                 else if PR s = None then enterCreatePR ui w m s
                 else (m\<lparr>state := stateManagePR, inputErr := []\<rparr>, []))
          else if k = ''d'' then
            (case selectedSession ui m of
               Some s \<Rightarrow>
                 if Path s \<noteq> repoRoot m then (m\<lparr>state := stateDeleteConfirm, inputErr := []\<rparr>, [])
                 else (m, [])
             | None \<Rightarrow> (m, []))
          else if k = ''enter'' then
            (case selectedSession ui m of
               Some s \<Rightarrow> (m, [EnsureAndAttach s])
             | None \<Rightarrow> (m, []))
          else listUpdate ui m msg
      | _ \<Rightarrow> listUpdate ui m msg)"

text \<open>
  In \<open>updateCreatePR\<close> a key that no case returns for (a space outside the draft field
  among them) goes on to the text input in focus, as does any other message.
\<close>

definition createPRFieldUpdate :: "('ti, 'l) UI \<Rightarrow> ('ti, 'l) Model \<Rightarrow> Msg \<Rightarrow> ('ti, 'l) Model \<times> Cmd list" where
  "createPRFieldUpdate ui m msg =
     (case createPRField m of
        fieldTitle \<Rightarrow>
          (case ti_Update ui msg (createPRTitle m) of (t, c) \<Rightarrow> (m\<lparr>createPRTitle := t\<rparr>, libCmd c))
      | fieldBase \<Rightarrow>
          (case ti_Update ui msg (createPRBase m) of (t, c) \<Rightarrow> (m\<lparr>createPRBase := t\<rparr>, libCmd c))
      | fieldDraft \<Rightarrow> (m, []))"

definition updateCreatePR :: "('ti, 'l) UI \<Rightarrow> ('ti, 'l) Model \<Rightarrow> Msg \<Rightarrow> ('ti, 'l) Model \<times> Cmd list" where
  "updateCreatePR ui m msg =
     (case msg of
        KeyMsg k \<Rightarrow>
          if k = ''esc'' then
            (m\<lparr>state := stateNormal, inputErr := [],
               createPRTitle := ti_Blur ui (createPRTitle m),
               createPRBase := ti_Blur ui (createPRBase m)\<rparr>, [])
          else if k = ''tab'' then
            (case createPRField m of
               fieldTitle \<Rightarrow>
                 (m\<lparr>createPRField := fieldBase,
                    createPRTitle := ti_Blur ui (createPRTitle m),
                    createPRBase := ti_Focus ui (createPRBase m)\<rparr>, [Blink])
             | fieldBase \<Rightarrow>
                 (m\<lparr>createPRField := fieldDraft,
                    createPRBase := ti_Blur ui (createPRBase m)\<rparr>, [Blink])
             | fieldDraft \<Rightarrow>
                 (m\<lparr>createPRField := fieldTitle,
                    createPRTitle := ti_Focus ui (createPRTitle m)\<rparr>, [Blink]))
          else if k = '' '' \<and> createPRField m = fieldDraft then
            (m\<lparr>createPRDraft := \<not> createPRDraft m\<rparr>, [])
          else if k = ''enter'' then
            (let title = TrimSpace (ti_Value ui (createPRTitle m));
                 base = TrimSpace (ti_Value ui (createPRBase m))
             in if title = [] then (m\<lparr>inputErr := ''title cannot be empty''\<rparr>, [])
                else if base = [] then (m\<lparr>inputErr := ''base branch cannot be empty''\<rparr>, [])
                else case selectedSession ui m of
                       None \<Rightarrow> (m\<lparr>inputErr := ''no session selected''\<rparr>, [])
                     | Some s \<Rightarrow>
                         (m\<lparr>inputErr := [],
                            createPRTitle := ti_Blur ui (createPRTitle m),
                            createPRBase := ti_Blur ui (createPRBase m)\<rparr>,
                          [CreatePR (forge m) (Path s) (Branch s)
                             \<lparr>opt_Title = title, opt_BaseBranch = base,
                              opt_Draft = createPRDraft m\<rparr>]))
          else createPRFieldUpdate ui m msg
      | _ \<Rightarrow> createPRFieldUpdate ui m msg)"

definition updateManagePR :: "('ti, 'l) UI \<Rightarrow> ('ti, 'l) Model \<Rightarrow> Msg \<Rightarrow> ('ti, 'l) Model \<times> Cmd list" where
  "updateManagePR ui m msg =
     (case msg of
        KeyMsg k \<Rightarrow>
          if k = ''esc'' then (m\<lparr>state := stateNormal\<rparr>, [])
          else if k = ''p'' then
            (case Option.bind (selectedSession ui m) PR of
               None \<Rightarrow> (m\<lparr>state := stateNormal\<rparr>, [])
             | Some pr \<Rightarrow> (m, [UpdatePR (forge m) (Number pr) (Some False)]))
          else if k = ''d'' then
            (case Option.bind (selectedSession ui m) PR of
               None \<Rightarrow> (m\<lparr>state := stateNormal\<rparr>, [])
             | Some pr \<Rightarrow> (m, [UpdatePR (forge m) (Number pr) (Some True)]))
          else if k = ''o'' then
            (case Option.bind (selectedSession ui m) PR of
               None \<Rightarrow> (m\<lparr>state := stateNormal\<rparr>, [])
             | Some pr \<Rightarrow>
                 if WebURL pr \<noteq> [] then (m\<lparr>state := stateNormal\<rparr>, [OpenURL (WebURL pr)])
                 else (m\<lparr>state := stateNormal\<rparr>, []))
          else (m, [])
      | _ \<Rightarrow> (m, []))"

definition updateNewSession :: "('ti, 'l) UI \<Rightarrow> ('ti, 'l) Model \<Rightarrow> Msg \<Rightarrow> ('ti, 'l) Model \<times> Cmd list" where
  "updateNewSession ui m msg =
     (case msg of
        KeyMsg k \<Rightarrow>
          if k = ''esc'' then
            (m\<lparr>state := stateNormal, inputErr := [], nameInput := ti_Blur ui (nameInput m)\<rparr>, [])
          else if k = ''enter'' then
            (let branch = TrimSpace (ti_Value ui (nameInput m))
             in if branch = [] then (m\<lparr>inputErr := ''branch name cannot be empty''\<rparr>, [])
                else if repoRoot m = [] then
                  (m\<lparr>inputErr := ''could not determine git repo root''\<rparr>, [])
                else (m\<lparr>inputErr := []\<rparr>, [CreateWorktree (repoRoot m) branch]))
          else nameInputUpdate ui m msg
      | _ \<Rightarrow> nameInputUpdate ui m msg)"

text \<open>The loop of \<open>updateCommitType\<close> over \<open>commitTypes\<close>: the first type whose key was pressed.\<close>

fun commitTypeOfKey :: "string \<Rightarrow> ccType list \<Rightarrow> ccType option" where
  "commitTypeOfKey k [] = None"
| "commitTypeOfKey k (t # ts) = (if k = cc_key t then Some t else commitTypeOfKey k ts)"

definition updateCommitType :: "('ti, 'l) UI \<Rightarrow> ('ti, 'l) Model \<Rightarrow> Msg \<Rightarrow> ('ti, 'l) Model \<times> Cmd list" where
  "updateCommitType ui m msg =
     (case msg of
        KeyMsg k \<Rightarrow>
          if k = ''esc'' then (m\<lparr>state := stateNormal, inputErr := []\<rparr>, [])
          else (case commitTypeOfKey k commitTypes of
                  Some t \<Rightarrow>
                    (m\<lparr>commitType := cc_typ t, state := stateCommit, inputErr := [],
                       nameInput := ti_Focus ui (ti_Reset ui
                         (ti_SetPlaceholder ui ''short description'' (nameInput m)))\<rparr>,
                     [Blink])
                | None \<Rightarrow> (m, []))
      | _ \<Rightarrow> (m, []))"

definition updateCommit :: "('ti, 'l) UI \<Rightarrow> ('ti, 'l) Model \<Rightarrow> Msg \<Rightarrow> ('ti, 'l) Model \<times> Cmd list" where
  "updateCommit ui m msg =
     (case msg of
        KeyMsg k \<Rightarrow>
          if k = ''esc'' then
            (m\<lparr>state := stateCommitType, inputErr := [], nameInput := ti_Blur ui (nameInput m)\<rparr>, [])
          else if k = ''enter'' then
            (let desc = TrimSpace (ti_Value ui (nameInput m))
             in if desc = [] then (m\<lparr>inputErr := ''description cannot be empty''\<rparr>, [])
                else case selectedSession ui m of
                       None \<Rightarrow> (m\<lparr>inputErr := ''no session selected''\<rparr>, [])
                     | Some s \<Rightarrow>
                         (m\<lparr>inputErr := []\<rparr>, [Commit (Path s) (commitType m @ '': '' @ desc)]))
          else nameInputUpdate ui m msg
      | _ \<Rightarrow> nameInputUpdate ui m msg)"

definition updateDeleteConfirm :: "('ti, 'l) UI \<Rightarrow> ('ti, 'l) Model \<Rightarrow> Msg \<Rightarrow> ('ti, 'l) Model \<times> Cmd list" where
  "updateDeleteConfirm ui m msg =
     (case msg of
        KeyMsg k \<Rightarrow>
          if k = ''esc'' \<or> k = ''n'' \<or> k = ''N'' then (m\<lparr>state := stateNormal, inputErr := []\<rparr>, [])
          else if k = ''enter'' \<or> k = ''y'' \<or> k = ''Y'' then
            (case selectedSession ui m of
               None \<Rightarrow> (m\<lparr>state := stateNormal\<rparr>, [])
             | Some s \<Rightarrow> (m, [DeleteWorktree (repoRoot m) (Path s) (Branch s)]))
          else (m, [])
      | _ \<Rightarrow> (m, []))"

text \<open>The second switch of \<open>Update\<close>, on the state, for a message the first one left.\<close>

definition updateByState :: "('ti, 'l) UI \<Rightarrow> World \<Rightarrow> ('ti, 'l) Model \<Rightarrow> Msg \<Rightarrow> ('ti, 'l) Model \<times> Cmd list" where
  "updateByState ui w m msg =
     (case state m of
        stateNewSession \<Rightarrow> updateNewSession ui m msg
      | stateCommitType \<Rightarrow> updateCommitType ui m msg
      | stateCommit \<Rightarrow> updateCommit ui m msg
      | stateDeleteConfirm \<Rightarrow> updateDeleteConfirm ui m msg
      | stateCreatePR \<Rightarrow> updateCreatePR ui m msg
      | stateManagePR \<Rightarrow> updateManagePR ui m msg
      | stateNormal \<Rightarrow> updateNormal ui w m msg)"

text \<open>
  \<open>Update\<close>: the next model and the commands dispatched (none for a nil command, several
  for a batch), or \<open>None\<close> where the program panics.
\<close>

definition Update :: "('ti, 'l) UI \<Rightarrow> World \<Rightarrow> ('ti, 'l) Model \<Rightarrow> Msg \<Rightarrow> (('ti, 'l) Model \<times> Cmd list) option" where
  "Update ui w m msg =
     (case msg of
        WindowSizeMsg wd ht \<Rightarrow>
          (let m = m\<lparr>width := wd, height := ht\<rparr> in
           case listDimensions m of
             (lw, lh) \<Rightarrow> Some (m\<lparr>mlist := list_SetSize ui lw lh (mlist m)\<rparr>, []))
      | tickMsg \<Rightarrow>
          (let m = m\<lparr>spinnerFrame := go_rem (spinnerFrame m + 1) (int (length spinnerFrames))\<rparr> in
           if \<not> loading m \<and> err m = None
           then (case buildItems ui m of None \<Rightarrow> None | Some m' \<Rightarrow> Some (m', [tickCmd]))
           else Some (m, [tickCmd]))
      | clearStatusMsg \<Rightarrow> Some (m\<lparr>statusText := []\<rparr>, [])
      | sessionsLoadedMsg ss e \<Rightarrow>
          (let m = m\<lparr>loading := False\<rparr> in
           case e of
             Some er \<Rightarrow> Some (m\<lparr>err := Some er\<rparr>, [])
           | None \<Rightarrow>
               (case buildItems ui (m\<lparr>err := None, sessions := ss\<rparr>) of
                  None \<Rightarrow> None
                | Some m' \<Rightarrow> Some (m', [])))
      | worktreeCreatedMsg slug path e \<Rightarrow>
          (case e of
             Some er \<Rightarrow> Some (m\<lparr>inputErr := er\<rparr>, [])
           | None \<Rightarrow>
               Some (m\<lparr>state := stateNormal, inputErr := [],
                       nameInput := ti_Blur ui (ti_Reset ui (nameInput m))\<rparr>,
                     [EnsureAndAttach \<lparr>Path = path, Branch = [], Slug = slug, NeedsInput = False,
                                       TmuxRunning = False, PR = None\<rparr>]))
      | sessionEnsuredMsg slug e \<Rightarrow>
          (case e of
             Some er \<Rightarrow> Some (m\<lparr>err := Some er\<rparr>, [])
           | None \<Rightarrow> Some (m, [ExecAttach slug]))
      | claudeExitedMsg e \<Rightarrow> Some (m\<lparr>loading := True\<rparr>, [FetchSessions (forge m)])
      | commitResultMsg e \<Rightarrow>
          (case e of
             Some er \<Rightarrow> Some (m\<lparr>inputErr := er\<rparr>, [])
           | None \<Rightarrow>
               Some (setStatus statusInfo (mark_ok @ '' committed'')
                       (m\<lparr>state := stateNormal, inputErr := [],
                          nameInput := ti_Blur ui (ti_Reset ui (nameInput m)),
                          loading := True\<rparr>),
                     [FetchSessions (forge m), clearStatusCmd]))
      | worktreeRemovedMsg e \<Rightarrow>
          (case e of
             Some er \<Rightarrow> Some (m\<lparr>inputErr := er, state := stateNormal\<rparr>, [])
           | None \<Rightarrow>
               Some (m\<lparr>state := stateNormal, inputErr := [], loading := True\<rparr>,
                     [FetchSessions (forge m)]))
      | pushResultMsg e \<Rightarrow>
          (let m = (case e of
                      Some er \<Rightarrow> setStatus statusError (mark_fail @ '' push failed: '' @ er) m
                    | None \<Rightarrow> setStatus statusInfo (mark_ok @ '' pushed'') m)
           in Some (m\<lparr>loading := True\<rparr>, [FetchSessions (forge m), clearStatusCmd]))
      | prCreatedMsg e \<Rightarrow>
          (case e of
             Some er \<Rightarrow> Some (m\<lparr>inputErr := er\<rparr>, [])
           | None \<Rightarrow>
               Some ((setStatus statusInfo (mark_ok @ '' PR created'')
                        (m\<lparr>state := stateNormal, inputErr := []\<rparr>))\<lparr>loading := True\<rparr>,
                     [FetchSessions (forge m), clearStatusCmd]))
      | prUpdatedMsg e \<Rightarrow>
          (case e of
             Some er \<Rightarrow>
               Some ((setStatus statusError (mark_fail @ '' '' @ er) m)\<lparr>state := stateNormal\<rparr>,
                     [clearStatusCmd])
           | None \<Rightarrow>
               Some ((setStatus statusInfo (mark_ok @ '' PR updated'')
                        (m\<lparr>state := stateNormal\<rparr>))\<lparr>loading := True\<rparr>,
                     [FetchSessions (forge m), clearStatusCmd]))
      | KeyMsg k \<Rightarrow> Some (updateByState ui w m msg)
      | OtherMsg n \<Rightarrow> Some (updateByState ui w m msg))"

definition Init :: "('ti, 'l) Model \<Rightarrow> Cmd list" where
  "Init m = [FetchSessions (forge m), tickCmd]"

text \<open>
  The runtime hands the messages to \<open>Update\<close> one after the other, each with the model the
  previous one left; \<open>run\<close> gives the last model and all the commands dispatched on the
  way.
\<close>

fun run :: "('ti, 'l) UI \<Rightarrow> World \<Rightarrow> ('ti, 'l) Model \<Rightarrow> Msg list \<Rightarrow> (('ti, 'l) Model \<times> Cmd list) option" where
  "run ui w m [] = Some (m, [])"
| "run ui w m (msg # msgs) =
     (case Update ui w m msg of
        None \<Rightarrow> None
      | Some (m', cmds) \<Rightarrow>
          (case run ui w m' msgs of
             None \<Rightarrow> None
           | Some (m'', cmds') \<Rightarrow> Some (m'', cmds @ cmds')))"

text \<open>
  Which commands call a forge when they run: \<open>createPRCmd\<close> and \<open>updatePRCmd\<close> call a
  method of the forge they were given, without a test for nil; \<open>fetchSessionsCmd\<close> calls
  \<open>FetchPR\<close> only when its forge is not nil.
\<close>

fun callsForge :: "Cmd \<Rightarrow> bool" where
  "callsForge (CreatePR f repoPath branch opts) = True"
| "callsForge (UpdatePR f number draft) = True"
| "callsForge (FetchSessions f) = (f \<noteq> None)"
| "callsForge c = False"

text \<open>A model without a forge that is in neither of the two review states.\<close>

definition noForge :: "('ti, 'l) Model \<Rightarrow> bool" where
  "noForge m = (forge m = None \<and> state m \<noteq> stateCreatePR \<and> state m \<noteq> stateManagePR)"

section \<open>A small world to run the program in\<close>

text \<open>
  A repository with three worktrees: the primary one on \<open>main\<close>, one on branch
  \<open>fix/login-bug\<close> with a background session whose pane stands still, and one whose block
  has no branch line. GitLab knows two merge requests for \<open>fix/login-bug\<close>, a merged one
  and an open one whose pipeline passed and whose discussions are resolved; for \<open>main\<close>
  the \<open>glab\<close> call fails, and for any other branch its output is not JSON.
\<close>

definition exampleListing :: string where
  "exampleListing =
     ''worktree /repo'' @ [NL] @ ''HEAD 1a2b3c'' @ [NL] @ ''branch refs/heads/main'' @ [NL, NL] @
     ''worktree /repo/.claude/worktrees/fix-login-bug'' @ [NL] @ ''HEAD 4d5e6f'' @ [NL] @
     ''branch refs/heads/fix/login-bug'' @ [NL, NL] @
     ''worktree /tmp/bare'' @ [NL] @ ''bare'' @ [NL]"

definition exampleWorld :: World where
  "exampleWorld =
     \<lparr>git_worktree_list = Inr exampleListing,
      tmux_sessions = [(''fix-login-bug'', ''/repo/.claude/worktrees/fix-login-bug'')],
      tmux_capture_pane = (\<lambda>slug. (''> '', ''> '')),
      tmux_new_session_fails = None,
      os_UserConfigDir = Inr ''/home/dev/.config'',
      os_MkdirAll_fails = None,
      os_WriteFile_fails = None,
      files = [],
      glab_mr_list = (\<lambda>branch. if branch = ''fix/login-bug'' then Inr ''[mr3,mr7]''
                              else if branch = ''main'' then Inl ''exit status 1''
                              else Inr ''<html>''),
      gh_pr_list = (\<lambda>branch. if branch = ''fix/login-bug'' then Inr ''[pr3,pr7]''
                            else if branch = ''main'' then Inl ''exit status 1''
                            else Inr ''<html>''),
      git_rev_parse_toplevel = Inr (''/repo'' @ [NL]),
      git_remote_get_url = (\<lambda>root. Inr (''git@gitlab.com:dev/repo.git'' @ [NL])),
      git_symbolic_ref = (\<lambda>root. Inr (''origin/main'' @ [NL])),
      glab_repo_view = (\<lambda>root. False)\<rparr>"

definition mr3 :: glabMR where
  "mr3 = \<lparr>mr_IID = 3, mr_Title = ''Login: first try'', mr_State = ''merged'',
          mr_WebURL = ''https://gitlab.com/dev/repo/-/merge_requests/3'', mr_Draft = False,
          mr_Pipeline = Some ''failed'', mr_BlockingDiscussionsResolved = Some True\<rparr>"

definition mr7 :: glabMR where
  "mr7 = \<lparr>mr_IID = 7, mr_Title = ''Fix login bug'', mr_State = ''opened'',
          mr_WebURL = ''https://gitlab.com/dev/repo/-/merge_requests/7'', mr_Draft = False,
          mr_Pipeline = Some ''success'', mr_BlockingDiscussionsResolved = Some True\<rparr>"

definition pr3 :: ghPR where
  "pr3 = \<lparr>gh_Number = 3, gh_Title = ''Login: first try'', gh_State = ''MERGED'',
          gh_URL = ''https://github.com/dev/repo/pull/3'', gh_IsDraft = False,
          gh_StatusCheckRollup = ''FAILURE'', gh_ReviewDecision = ''APPROVED''\<rparr>"

definition pr7 :: ghPR where
  "pr7 = \<lparr>gh_Number = 7, gh_Title = ''Fix login bug'', gh_State = ''OPEN'',
          gh_URL = ''https://github.com/dev/repo/pull/7'', gh_IsDraft = False,
          gh_StatusCheckRollup = ''SUCCESS'', gh_ReviewDecision = ''APPROVED''\<rparr>"

text \<open>A decoder for the outputs of this world; any other input is a syntax error.\<close>

definition exampleJSON :: JSON where
  "exampleJSON =
     \<lparr>unmarshal_glabMRs = (\<lambda>out. if out = ''[mr3,mr7]'' then Inr [mr3, mr7]
                                 else if out = ''[mr3]'' then Inr [mr3]
                                 else Inl ''invalid character''),
      unmarshal_ghPRs = (\<lambda>out. if out = ''[pr3,pr7]'' then Inr [pr3, pr7]
                               else if out = ''[pr3]'' then Inr [pr3]
                               else Inl ''invalid character'')\<rparr>"

text \<open>The same world with no remote: forge detection finds no backend.\<close>

definition noRemoteWorld :: World where
  "noRemoteWorld = exampleWorld\<lparr>git_remote_get_url := (\<lambda>root. Inl ''exit status 2'')\<rparr>"

text \<open>The same world with a busy pane and only the merged request, whose pipeline failed.\<close>

definition failedWorld :: World where
  "failedWorld =
     exampleWorld\<lparr>tmux_capture_pane := (\<lambda>slug. (''thinking.'', ''thinking..'')),
                  glab_mr_list := (\<lambda>branch. Inr ''[mr3]''),
                  gh_pr_list := (\<lambda>branch. Inr ''[pr3]'')\<rparr>"

text \<open>
  Widgets for the examples: a text input is its value, a list is the index of the selected
  row; neither returns a command.
\<close>

definition exampleUI :: "(string, int) UI" where
  "exampleUI =
     \<lparr>ti_New = (\<lambda>placeholder limit. []),
      ti_Value = (\<lambda>t. t),
      ti_SetValue = (\<lambda>v t. v),
      ti_SetPlaceholder = (\<lambda>p t. t),
      ti_Reset = (\<lambda>t. []),
      ti_Focus = (\<lambda>t. t),
      ti_Blur = (\<lambda>t. t),
      ti_Update = (\<lambda>msg t. (case msg of KeyMsg k \<Rightarrow> if length k = 1 then t @ k else t | _ \<Rightarrow> t, None)),
      list_New = 0,
      list_Index = (\<lambda>l. l),
      list_SetItems = (\<lambda>items l. l),
      list_SetSize = (\<lambda>lw lh l. l),
      list_Update = (\<lambda>msg l. (case msg of KeyMsg k \<Rightarrow> if k = ''down'' then l + 1
                                              else if k = ''up'' then l - 1 else l
                                | _ \<Rightarrow> l, None))\<rparr>"

definition exampleSessions :: "Session list" where
  "exampleSessions =
     [\<lparr>Path = ''/repo'', Branch = ''main'', Slug = ''main'', NeedsInput = False,
       TmuxRunning = False, PR = None\<rparr>,
      \<lparr>Path = ''/repo/.claude/worktrees/fix-login-bug'', Branch = ''fix/login-bug'',
       Slug = ''fix-login-bug'', NeedsInput = False, TmuxRunning = False, PR = None\<rparr>,
      \<lparr>Path = ''/tmp/bare'', Branch = [], Slug = ''unknown'', NeedsInput = False,
       TmuxRunning = False, PR = None\<rparr>]"

text \<open>
  A model in state \<open>s\<close> with forge \<open>f\<close>, the three sessions loaded and the second one
  selected.
\<close>

definition exampleModel :: "appState \<Rightarrow> Forge option \<Rightarrow> (string, int) Model" where
  "exampleModel s f =
     \<lparr>mlist = 1, sessions = exampleSessions, width = 120, height = 40, loading = False,
      err = None, repoRoot = ''/repo'', forge = f, state = s, nameInput = [],
      inputErr = [], spinnerFrame = 0, commitType = [], createPRTitle = [],
      createPRBase = ''main'', createPRDraft = False, createPRField = fieldTitle,
      statusText = [], statusLevel = statusInfo\<rparr>"

section \<open>Properties\<close>

lemma BranchToSlug_nonempty: "BranchToSlug branch \<noteq> []"
  by (simp add: BranchToSlug_def ReplaceAll_def ToLower_def)

lemma parseBlock_fresh:
  assumes "parseBlock block = Some s"
  shows "Slug s = BranchToSlug (Branch s) \<and> Path s \<noteq> [] \<and> \<not> NeedsInput s \<and> \<not> TmuxRunning s \<and> PR s = None"
  using assms
  by (auto simp: parseBlock_def Let_def split: prod.splits if_splits)

lemma parseWorktrees_fresh:
  assumes "s \<in> set (parseWorktrees raw)"
  shows "Slug s = BranchToSlug (Branch s) \<and> Path s \<noteq> [] \<and> \<not> NeedsInput s \<and> \<not> TmuxRunning s \<and> PR s = None"
proof -
  from assms obtain block where "parseBlock (TrimSpace block) = Some s"
    by (auto simp: parseWorktrees_def List.map_filter_def)
  then show ?thesis by (rule parseBlock_fresh)
qed

lemma firstOpened_find: "firstOpened mrs = List.find (\<lambda>m. mr_State m = ''opened'') mrs"
  by (induction mrs) simp_all

lemma firstOPEN_find: "firstOPEN prs = List.find (\<lambda>p. gh_State p = ''OPEN'') prs"
  by (induction prs) simp_all

lemma gitLab_FetchPR_preferOpen:
  assumes "glab_mr_list w branch = Inr out" and "unmarshal_glabMRs json out = Inr mrs"
  shows "gitLab_FetchPR json w branch =
           (map_option glabToPR (preferOpen (\<lambda>m. mr_State m = ''opened'') mrs), None)"
  using assms
  by (cases mrs) (auto simp: gitLab_FetchPR_def preferOpen_def firstOpened_find Let_def split: option.splits)

lemma gitHub_FetchPR_preferOpen:
  assumes "gh_pr_list w branch = Inr out" and "unmarshal_ghPRs json out = Inr prs"
  shows "gitHub_FetchPR json w branch =
           (map_option ghToPR (preferOpen (\<lambda>p. gh_State p = ''OPEN'') prs), None)"
  using assms
  by (cases prs) (auto simp: gitHub_FetchPR_def preferOpen_def firstOPEN_find Let_def split: option.splits)

lemma FetchPR_no_error: "snd (FetchPR f json w branch) = None"
  by (cases f) (auto simp: gitLab_FetchPR_def gitHub_FetchPR_def Let_def split: sum.splits option.splits)

lemma WriteFile_twice: "WriteFile p c (WriteFile p c fs) = WriteFile p c fs"
  by (simp add: WriteFile_def split_def)

lemma configPath_twice: "configPath (snd (configPath w)) = configPath w"
  by (auto simp: configPath_def Let_def WriteFile_twice split: sum.splits option.splits)

lemma EnsureSession_twice:
  "EnsureSession slug path (snd (EnsureSession slug path w)) = (fst (EnsureSession slug path w), snd (EnsureSession slug path w))"
proof (cases "SessionExists w slug")
  case True
  then show ?thesis by (simp add: EnsureSession_def)
next
  case False
  obtain r w1 where cp: "configPath w = (r, w1)" by (cases "configPath w")
  have same: "tmux_sessions w1 = tmux_sessions w"
    using cp by (auto simp: configPath_def Let_def split: sum.splits option.splits)
  then have ex1: "\<not> SessionExists w1 slug"
    using False by (simp add: SessionExists_def)
  have cp1: "configPath w1 = (r, w1)"
    using configPath_twice [of w] cp by simp
  show ?thesis
  proof (cases r)
    case (Inl e)
    then show ?thesis
      using False ex1 cp cp1 by (simp add: EnsureSession_def)
  next
    case cfg: (Inr cfgPath)
    show ?thesis
    proof (cases "new_session w1 slug path")
      case (Inl out)
      then show ?thesis
        using False ex1 cp cp1 cfg by (simp add: EnsureSession_def)
    next
      case (Inr w2)
      then have "SessionExists w2 slug"
        by (auto simp: new_session_def SessionExists_def split: option.splits if_splits)
      moreover have "EnsureSession slug path w = (None, w2)"
        using False cp cfg Inr by (simp add: EnsureSession_def)
      ultimately show ?thesis by (simp add: EnsureSession_def)
    qed
  qed
qed

lemma enrichSession_frame:
  "Slug (fst (enrichSession json w f s)) = Slug s \<and>
   Branch (fst (enrichSession json w f s)) = Branch s \<and>
   Path (fst (enrichSession json w f s)) = Path s \<and>
   TmuxRunning (fst (enrichSession json w f s)) = SessionExists w (Slug s)"
  by (simp add: enrichSession_def Let_def split: option.splits prod.splits)

lemma enrichSession_PR:
  "PR (fst (enrichSession json w f s)) =
     (case f of None \<Rightarrow> PR s | Some fg \<Rightarrow> fst (FetchPR fg json w (Branch s)))"
  by (simp add: enrichSession_def Let_def split: option.splits prod.splits)

lemma enrichSession_NeedsInput:
  "NeedsInput (fst (enrichSession json w f s)) =
     (case PR (fst (enrichSession json w f s)) of
        Some p \<Rightarrow> if f = None then (if SessionExists w (Slug s) then NeedsInputProbe w (Slug s) else NeedsInput s)
                  else PipelineStatus p = ''failed'' \<or> HasUnresolved p
      | None \<Rightarrow> if SessionExists w (Slug s) then NeedsInputProbe w (Slug s) else NeedsInput s)"
  by (simp add: enrichSession_def Let_def split: option.splits prod.splits)

lemma enrichSession_probe_NeedsInput:
  "ProbeNeedsInput x \<in> set (snd (enrichSession json w f s)) \<Longrightarrow> x = Slug s \<and> SessionExists w (Slug s)"
  by (auto simp: enrichSession_def Let_def split: option.splits prod.splits if_splits)

lemma enrichSession_probe_FetchPR:
  "ProbeFetchPR fg b \<in> set (snd (enrichSession json w f s)) \<Longrightarrow> f = Some fg \<and> b = Branch s"
  by (auto simp: enrichSession_def Let_def split: option.splits prod.splits if_splits)

lemma fetchSessionsCmd_cases:
  obtains err where "git_worktree_list w = Inl err"
      and "fetchSessionsCmd json w f = (sessionsLoadedMsg [] (Some (''git worktree list: '' @ err)), [])"
  | raw where "git_worktree_list w = Inr raw"
      and "fetchSessionsCmd json w f =
             (sessionsLoadedMsg (map (\<lambda>s. fst (enrichSession json w f s)) (parseWorktrees raw)) None,
              concat (map (\<lambda>s. snd (enrichSession json w f s)) (parseWorktrees raw)))"
  by (cases "git_worktree_list w") (auto simp: fetchSessionsCmd_def ListWorktrees_def Let_def comp_def)

lemma published_session:
  assumes "fetchSessionsCmd json w f = (sessionsLoadedMsg published e, probes)"
    and "s \<in> set published"
  obtains s0 where "s = fst (enrichSession json w f s0)"
    and "Slug s0 = BranchToSlug (Branch s0)" and "\<not> NeedsInput s0" and "PR s0 = None"
proof (cases rule: fetchSessionsCmd_cases [of w json f])
  case (1 err)
  with assms show ?thesis by simp
next
  case (2 raw)
  with assms obtain s0 where "s0 \<in> set (parseWorktrees raw)" "s = fst (enrichSession json w f s0)"
    by auto
  with parseWorktrees_fresh [of s0 raw] that show ?thesis by blast
qed

lemma probe_made:
  assumes "fetchSessionsCmd json w f = (sessionsLoadedMsg published e, probes)"
    and "p \<in> set probes"
  obtains s0 where "p \<in> set (snd (enrichSession json w f s0))"
proof (cases rule: fetchSessionsCmd_cases [of w json f])
  case (1 err)
  with assms show ?thesis by simp
next
  case (2 raw)
  with assms that show ?thesis by auto
qed

text \<open>
  Claim C6. In an enrichment cycle, a published session for whose slug \<open>SessionExists\<close>
  answers false is published with \<open>TmuxRunning\<close> false, and no probe of the cycle is a
  \<open>NeedsInput\<close> probe of that slug.
\<close>

theorem absent_session_not_probed:
  assumes "fetchSessionsCmd json w f = (sessionsLoadedMsg published e, probes)"
    and "s \<in> set published"
    and "\<not> SessionExists w (Slug s)"
  shows "ProbeNeedsInput (Slug s) \<notin> set probes \<and> \<not> TmuxRunning s"
proof
  show "ProbeNeedsInput (Slug s) \<notin> set probes"
  proof
    assume "ProbeNeedsInput (Slug s) \<in> set probes"
    with assms(1) obtain s1 where "ProbeNeedsInput (Slug s) \<in> set (snd (enrichSession json w f s1))"
      by (rule probe_made)
    then have "SessionExists w (Slug s)"
      using enrichSession_probe_NeedsInput by metis
    with assms(3) show False by simp
  qed
next
  obtain s0 where "s = fst (enrichSession json w f s0)"
    using assms(1,2) by (rule published_session)
  then show "\<not> TmuxRunning s"
    using assms(3) enrichSession_frame [of json w f s0] by simp
qed

text \<open>
  Claim C7. A session published with a review whose \<open>PipelineStatus\<close> is "failed" is
  published with \<open>NeedsInput\<close> true, whatever the two pane captures of its background
  session are.
\<close>

theorem failed_pipeline_needs_input:
  assumes "fetchSessionsCmd json w f = (sessionsLoadedMsg published e, probes)"
    and "s \<in> set published"
    and "PR s = Some p"
    and "PipelineStatus p = ''failed''"
  shows "NeedsInput s"
proof -
  obtain s0 where s: "s = fst (enrichSession json w f s0)" and fresh: "PR s0 = None"
    using assms(1,2) by (rule published_session)
  from s fresh assms(3) have "f \<noteq> None"
    by (auto simp: enrichSession_PR split: option.splits)
  with s assms(3,4) show ?thesis
    by (auto simp: enrichSession_NeedsInput)
qed


lemma example_fetch_gitLab:
  "fetchSessionsCmd exampleJSON exampleWorld (Some gitLab) =
     (sessionsLoadedMsg
        [\<lparr>Path = ''/repo'', Branch = ''main'', Slug = ''main'', NeedsInput = False,
          TmuxRunning = False, PR = None\<rparr>,
         \<lparr>Path = ''/repo/.claude/worktrees/fix-login-bug'', Branch = ''fix/login-bug'',
          Slug = ''fix-login-bug'', NeedsInput = False, TmuxRunning = True,
          PR = Some (glabToPR mr7)\<rparr>,
         \<lparr>Path = ''/tmp/bare'', Branch = [], Slug = ''unknown'', NeedsInput = False,
          TmuxRunning = False, PR = None\<rparr>] None,
      [ProbeSessionExists ''main'', ProbeFetchPR gitLab ''main'',
       ProbeSessionExists ''fix-login-bug'', ProbeNeedsInput ''fix-login-bug'',
       ProbeFetchPR gitLab ''fix/login-bug'',
       ProbeSessionExists ''unknown'', ProbeFetchPR gitLab []])"
  by code_simp

lemma example_fetch_failed:
  "fetchSessionsCmd exampleJSON failedWorld (Some gitLab) =
     (sessionsLoadedMsg
        [\<lparr>Path = ''/repo'', Branch = ''main'', Slug = ''main'', NeedsInput = True,
          TmuxRunning = False, PR = Some (glabToPR mr3)\<rparr>,
         \<lparr>Path = ''/repo/.claude/worktrees/fix-login-bug'', Branch = ''fix/login-bug'',
          Slug = ''fix-login-bug'', NeedsInput = True, TmuxRunning = True,
          PR = Some (glabToPR mr3)\<rparr>,
         \<lparr>Path = ''/tmp/bare'', Branch = [], Slug = ''unknown'', NeedsInput = True,
          TmuxRunning = False, PR = Some (glabToPR mr3)\<rparr>] None,
      [ProbeSessionExists ''main'', ProbeFetchPR gitLab ''main'',
       ProbeSessionExists ''fix-login-bug'', ProbeNeedsInput ''fix-login-bug'',
       ProbeFetchPR gitLab ''fix/login-bug'',
       ProbeSessionExists ''unknown'', ProbeFetchPR gitLab []])"
  by code_simp

text \<open>In the example world no session is registered for \<open>main\<close>.\<close>

theorem absent_session_not_probed_witness:
  "\<not> SessionExists exampleWorld ''main'' \<and>
   ProbeNeedsInput ''main'' \<notin> set (snd (fetchSessionsCmd exampleJSON exampleWorld (Some gitLab))) \<and>
   map TmuxRunning (case fst (fetchSessionsCmd exampleJSON exampleWorld (Some gitLab)) of
                      sessionsLoadedMsg published e \<Rightarrow> published | _ \<Rightarrow> []) = [False, True, False]"
proof -
  have no: "\<not> SessionExists exampleWorld ''main''"
    by (simp add: SessionExists_def exampleWorld_def)
  show ?thesis
    using no absent_session_not_probed [OF example_fetch_gitLab, of "\<lparr>Path = ''/repo'', Branch = ''main'', Slug = ''main'', NeedsInput = False,
          TmuxRunning = False, PR = None\<rparr>"]
    by (simp add: example_fetch_gitLab)
qed

text \<open>In the world of the failed pipeline the pane is busy and every session is flagged.\<close>

theorem failed_pipeline_needs_input_witness:
  "PipelineStatus (glabToPR mr3) = ''failed'' \<and>
   \<not> NeedsInputProbe failedWorld ''fix-login-bug'' \<and>
   (case fst (fetchSessionsCmd exampleJSON failedWorld (Some gitLab)) of
      sessionsLoadedMsg published e \<Rightarrow> map NeedsInput published | _ \<Rightarrow> []) = [True, True, True]"
proof -
  have failed: "PipelineStatus (glabToPR mr3) = ''failed''"
    by (simp add: glabToPR_def mr3_def)
  have busy: "\<not> NeedsInputProbe failedWorld ''fix-login-bug''"
    by (simp add: NeedsInputProbe_def failedWorld_def)
  show ?thesis
    using failed busy
      failed_pipeline_needs_input [OF example_fetch_failed, of "\<lparr>Path = ''/repo/.claude/worktrees/fix-login-bug'', Branch = ''fix/login-bug'',
          Slug = ''fix-login-bug'', NeedsInput = True, TmuxRunning = True,
          PR = Some (glabToPR mr3)\<rparr>" "glabToPR mr3"]
    by (simp add: example_fetch_failed)
qed

text \<open>
  Claim C1. The published \<open>NeedsInput\<close> is claimed to hold exactly when the idle detection
  fired for the live background session, or the review's pipeline failed, or the review
  has unresolved threads. The program run in the example world: the session of
  \<open>fix/login-bug\<close> is live and its pane stands still, so the idle detection fires, and
  the session is published with \<open>NeedsInput\<close> false, because the review attached to it
  has a passed pipeline and no unresolved thread. Without a forge the same session is
  published with \<open>NeedsInput\<close> true.
\<close>

theorem idle_session_hidden_by_green_review:
  "SessionExists exampleWorld ''fix-login-bug'' \<and>
   NeedsInputProbe exampleWorld ''fix-login-bug'' \<and>
   fst (fetchSessionsCmd exampleJSON exampleWorld (Some gitLab)) =
     sessionsLoadedMsg
        [\<lparr>Path = ''/repo'', Branch = ''main'', Slug = ''main'', NeedsInput = False,
          TmuxRunning = False, PR = None\<rparr>,
         \<lparr>Path = ''/repo/.claude/worktrees/fix-login-bug'', Branch = ''fix/login-bug'',
          Slug = ''fix-login-bug'', NeedsInput = False, TmuxRunning = True,
          PR = Some \<lparr>Number = 7, Title = ''Fix login bug'',
                     WebURL = ''https://gitlab.com/dev/repo/-/merge_requests/7'',
                     State = ''open'', PipelineStatus = ''success'', HasUnresolved = False,
                     Draft = False, Forge = ''gitlab''\<rparr>\<rparr>,
         \<lparr>Path = ''/tmp/bare'', Branch = [], Slug = ''unknown'', NeedsInput = False,
          TmuxRunning = False, PR = None\<rparr>] None \<and>
   (case fst (fetchSessionsCmd exampleJSON exampleWorld None) of
      sessionsLoadedMsg published e \<Rightarrow> map NeedsInput published | _ \<Rightarrow> []) =
     [False, True, False]"
  by code_simp



lemma New_no_forge:
  "forge (New ui w) = Detect w (fst (RepoRoot w)) \<and> state (New ui w) = stateNormal"
  by (simp add: New_def Let_def)

lemma fetch_no_forge:
  assumes "fetchSessionsCmd json w None = (sessionsLoadedMsg published e, probes)"
  shows "(\<forall>s\<in>set published. PR s = None) \<and> (\<forall>fg b. ProbeFetchPR fg b \<notin> set probes)"
proof (intro conjI ballI allI)
  fix s assume "s \<in> set published"
  with assms obtain s0 where "s = fst (enrichSession json w None s0)" "PR s0 = None"
    by (rule published_session)
  then show "PR s = None" by (simp add: enrichSession_PR)
next
  fix fg b
  show "ProbeFetchPR fg b \<notin> set probes"
  proof
    assume "ProbeFetchPR fg b \<in> set probes"
    with assms obtain s1 where "ProbeFetchPR fg b \<in> set (snd (enrichSession json w None s1))"
      by (rule probe_made)
    then show False using enrichSession_probe_FetchPR by fastforce
  qed
qed

lemma manage_key_no_forge:
  assumes "forge m = None" and "state m = stateNormal"
  shows "Update ui w m (KeyMsg ''m'') = Some (m, [])"
  using assms by (simp add: Update_def updateByState_def updateNormal_def split: option.splits)

lemma buildItems_frame: "buildItems ui m = Some m' \<Longrightarrow> forge m' = forge m \<and> state m' = state m"
  by (auto simp: buildItems_def Let_def split: if_splits)

lemma libCmd_harmless [simp]: "list_all (\<lambda>c. \<not> callsForge c) (libCmd k)"
  by (simp add: libCmd_def split: option.split)

lemma updateNormal_noForge:
  assumes "forge m = None" and "state m = stateNormal"
  shows "noForge (fst (updateNormal ui w m msg)) \<and>
         list_all (\<lambda>c. \<not> callsForge c) (snd (updateNormal ui w m msg))"
  using assms
  by (simp add: updateNormal_def listUpdate_def noForge_def split: Msg.split option.split prod.split)

lemma updateNewSession_noForge:
  assumes "forge m = None" and "state m = stateNewSession"
  shows "noForge (fst (updateNewSession ui m msg)) \<and>
         list_all (\<lambda>c. \<not> callsForge c) (snd (updateNewSession ui m msg))"
  using assms
  by (simp add: updateNewSession_def nameInputUpdate_def noForge_def Let_def split: Msg.split option.split prod.split)

lemma updateCommitType_noForge:
  assumes "forge m = None" and "state m = stateCommitType"
  shows "noForge (fst (updateCommitType ui m msg)) \<and>
         list_all (\<lambda>c. \<not> callsForge c) (snd (updateCommitType ui m msg))"
  using assms
  by (simp add: updateCommitType_def noForge_def Let_def split: Msg.split option.split prod.split)

lemma updateCommit_noForge:
  assumes "forge m = None" and "state m = stateCommit"
  shows "noForge (fst (updateCommit ui m msg)) \<and>
         list_all (\<lambda>c. \<not> callsForge c) (snd (updateCommit ui m msg))"
  using assms
  by (simp add: updateCommit_def nameInputUpdate_def noForge_def Let_def split: Msg.split option.split prod.split)

lemma updateDeleteConfirm_noForge:
  assumes "forge m = None" and "state m = stateDeleteConfirm"
  shows "noForge (fst (updateDeleteConfirm ui m msg)) \<and>
         list_all (\<lambda>c. \<not> callsForge c) (snd (updateDeleteConfirm ui m msg))"
  using assms
  by (simp add: updateDeleteConfirm_def noForge_def Let_def split: Msg.split option.split prod.split)

lemma updateByState_noForge:
  assumes "noForge m"
  shows "noForge (fst (updateByState ui w m msg)) \<and>
         list_all (\<lambda>c. \<not> callsForge c) (snd (updateByState ui w m msg))"
proof (cases "state m")
  case stateNormal
  with assms show ?thesis
    using updateNormal_noForge [of m ui w msg] by (simp add: updateByState_def noForge_def)
next
  case stateNewSession
  with assms show ?thesis
    using updateNewSession_noForge [of m ui msg] by (simp add: updateByState_def noForge_def)
next
  case stateCommitType
  with assms show ?thesis
    using updateCommitType_noForge [of m ui msg] by (simp add: updateByState_def noForge_def)
next
  case stateCommit
  with assms show ?thesis
    using updateCommit_noForge [of m ui msg] by (simp add: updateByState_def noForge_def)
next
  case stateDeleteConfirm
  with assms show ?thesis
    using updateDeleteConfirm_noForge [of m ui msg] by (simp add: updateByState_def noForge_def)
next
  case stateCreatePR
  with assms show ?thesis by (simp add: noForge_def)
next
  case stateManagePR
  with assms show ?thesis by (simp add: noForge_def)
qed


lemma Update_noForge:
  assumes "noForge m" and "Update ui w m msg = Some r"
  shows "noForge (fst r) \<and> list_all (\<lambda>c. \<not> callsForge c) (snd r)"
proof (cases msg)
  case (KeyMsg k)
  with assms(2) have "r = updateByState ui w m msg" by (simp add: Update_def)
  then show ?thesis using updateByState_noForge [OF assms(1)] by simp
next
  case (OtherMsg n)
  with assms(2) have "r = updateByState ui w m msg" by (simp add: Update_def)
  then show ?thesis using updateByState_noForge [OF assms(1)] by simp
next
  case (WindowSizeMsg wd ht)
  with assms show ?thesis
    by (auto simp: Update_def noForge_def Let_def listDimensions_def)
next
  case tickMsg
  with assms show ?thesis
    by (auto simp: Update_def noForge_def Let_def buildItems_def tickCmd_def split: if_splits)
next
  case clearStatusMsg
  with assms show ?thesis
    by (auto simp: Update_def noForge_def)
next
  case (sessionsLoadedMsg ss e)
  with assms show ?thesis
    by (cases e) (auto simp: Update_def noForge_def Let_def buildItems_def split: if_splits)
next
  case (worktreeCreatedMsg slug path e)
  with assms show ?thesis
    by (cases e) (auto simp: Update_def noForge_def)
next
  case (sessionEnsuredMsg slug e)
  with assms show ?thesis
    by (cases e) (auto simp: Update_def noForge_def)
next
  case (claudeExitedMsg e)
  with assms show ?thesis
    by (auto simp: Update_def noForge_def)
next
  case (commitResultMsg e)
  with assms show ?thesis
    by (cases e) (auto simp: Update_def noForge_def setStatus_def clearStatusCmd_def)
next
  case (worktreeRemovedMsg e)
  with assms show ?thesis
    by (cases e) (auto simp: Update_def noForge_def)
next
  case (pushResultMsg e)
  with assms show ?thesis
    by (cases e) (auto simp: Update_def noForge_def setStatus_def clearStatusCmd_def)
next
  case (prCreatedMsg e)
  with assms show ?thesis
    by (cases e) (auto simp: Update_def noForge_def setStatus_def clearStatusCmd_def)
next
  case (prUpdatedMsg e)
  with assms show ?thesis
    by (cases e) (auto simp: Update_def noForge_def setStatus_def clearStatusCmd_def)
qed

lemma run_noForge:
  assumes "noForge m" and "run ui w m msgs = Some (m', cmds)"
  shows "noForge m' \<and> list_all (\<lambda>c. \<not> callsForge c) cmds"
  using assms
proof (induction msgs arbitrary: m m' cmds)
  case Nil
  then show ?case by simp
next
  case (Cons msg msgs)
  from Cons.prems(2) obtain m1 c1 c2 where
    step: "Update ui w m msg = Some (m1, c1)" and rest: "run ui w m1 msgs = Some (m', c2)"
    and res: "cmds = c1 @ c2"
    by (auto split: option.splits prod.splits)
  from Update_noForge [OF Cons.prems(1) step]
  have m1: "noForge m1" and c1: "list_all (\<lambda>c. \<not> callsForge c) c1" by simp_all
  from Cons.IH [OF m1 rest] res c1 show ?case by simp
qed


text \<open>
  Claim C9. When forge detection finds no backend, then after any messages handled from
  the initial model the forge is still nil and no command dispatched so far, at start-up
  or later, calls a forge; in state Normal the key \<open>m\<close> changes nothing and dispatches
  nothing; and an enrichment cycle without a forge publishes every session with no
  review and makes no \<open>FetchPR\<close> call.
\<close>

theorem no_forge_never_invoked:
  assumes "Detect w (fst (RepoRoot w)) = None"
  shows "(\<forall>msgs m cmds. run ui w (New ui w) msgs = Some (m, cmds) \<longrightarrow>
            forge m = None \<and>
            (\<forall>c\<in>set (Init (New ui w) @ cmds). \<not> callsForge c) \<and>
            (state m = stateNormal \<longrightarrow> Update ui w m (KeyMsg ''m'') = Some (m, []))) \<and>
         (\<forall>published e probes.
            fetchSessionsCmd json w None = (sessionsLoadedMsg published e, probes) \<longrightarrow>
            (\<forall>s\<in>set published. PR s = None) \<and> (\<forall>fg b. ProbeFetchPR fg b \<notin> set probes))"
proof (intro conjI allI impI)
  fix msgs m cmds
  assume r: "run ui w (New ui w) msgs = Some (m, cmds)"
  have start: "noForge (New ui w)"
    using assms New_no_forge [of ui w] by (simp add: noForge_def)
  from run_noForge [OF start r] have m: "noForge m" and c: "list_all (\<lambda>c. \<not> callsForge c) cmds"
    by simp_all
  from m show "forge m = None" by (simp add: noForge_def)
  from c start show "\<forall>c\<in>set (Init (New ui w) @ cmds). \<not> callsForge c"
    by (auto simp: Init_def tickCmd_def noForge_def list_all_iff)
  assume "state m = stateNormal"
  with m show "Update ui w m (KeyMsg ''m'') = Some (m, [])"
    by (simp add: manage_key_no_forge noForge_def)
next
  fix published e probes
  assume f: "fetchSessionsCmd json w None = (sessionsLoadedMsg published e, probes)"
  from fetch_no_forge [OF f] show "\<forall>s\<in>set published. PR s = None" by simp
  fix fg b
  from fetch_no_forge [OF f] show "ProbeFetchPR fg b \<notin> set probes" by simp
qed

lemma noRemote_Detect: "Detect noRemoteWorld (fst (RepoRoot noRemoteWorld)) = None"
  by (simp add: Detect_def noRemoteWorld_def)

lemma noRemote_run:
  "map_option (\<lambda>(m, cmds). (state m, forge m, cmds))
     (run exampleUI noRemoteWorld (New exampleUI noRemoteWorld)
        [sessionsLoadedMsg exampleSessions None, KeyMsg ''down'', KeyMsg ''m'', KeyMsg ''r'']) =
   Some (stateNormal, None, [FetchSessions None])"
  by code_simp

lemma noRemote_fetch:
  "fetchSessionsCmd exampleJSON noRemoteWorld None =
     (sessionsLoadedMsg
        [\<lparr>Path = ''/repo'', Branch = ''main'', Slug = ''main'', NeedsInput = False,
          TmuxRunning = False, PR = None\<rparr>,
         \<lparr>Path = ''/repo/.claude/worktrees/fix-login-bug'', Branch = ''fix/login-bug'',
          Slug = ''fix-login-bug'', NeedsInput = True, TmuxRunning = True, PR = None\<rparr>,
         \<lparr>Path = ''/tmp/bare'', Branch = [], Slug = ''unknown'', NeedsInput = False,
          TmuxRunning = False, PR = None\<rparr>] None,
      [ProbeSessionExists ''main'',
       ProbeSessionExists ''fix-login-bug'', ProbeNeedsInput ''fix-login-bug'',
       ProbeSessionExists ''unknown''])"
  by code_simp

text \<open>
  In the world with no remote: the sessions load, the second one is selected, \<open>m\<close> is
  pressed, then \<open>r\<close>.
\<close>

theorem no_forge_never_invoked_witness:
  "Detect noRemoteWorld (fst (RepoRoot noRemoteWorld)) = None \<and>
   map_option (\<lambda>(m, cmds). (state m, forge m, cmds))
     (run exampleUI noRemoteWorld (New exampleUI noRemoteWorld)
        [sessionsLoadedMsg exampleSessions None, KeyMsg ''down'', KeyMsg ''m'', KeyMsg ''r'']) =
   Some (stateNormal, None, [FetchSessions None]) \<and>
   (case fst (fetchSessionsCmd exampleJSON noRemoteWorld None) of
      sessionsLoadedMsg published e \<Rightarrow> map PR published | _ \<Rightarrow> []) = [None, None, None]"
  using no_forge_never_invoked [OF noRemote_Detect, of exampleUI exampleJSON] noRemote_Detect noRemote_run
  by (simp add: noRemote_fetch)



text \<open>
  Claim C10. \<open>BranchToSlug\<close> of the empty branch name is "unknown"; so the session of
  every block that \<open>parseBlock\<close> accepts has a non-empty slug, and so has every session
  that an enrichment cycle publishes.
\<close>

theorem published_slug_nonempty:
  "BranchToSlug [] = ''unknown'' \<and>
   (\<forall>block s. parseBlock block = Some s \<longrightarrow> Slug s \<noteq> []) \<and>
   (\<forall>json w f published e probes.
      fetchSessionsCmd json w f = (sessionsLoadedMsg published e, probes) \<longrightarrow>
      (\<forall>s\<in>set published. Slug s \<noteq> []))"
proof (intro conjI allI impI ballI)
  show "BranchToSlug [] = ''unknown''" by (simp add: BranchToSlug_def)
next
  fix block s assume "parseBlock block = Some s"
  then show "Slug s \<noteq> []"
    using parseBlock_fresh [of block s] BranchToSlug_nonempty by simp
next
  fix json w f published e probes s
  assume "fetchSessionsCmd json w f = (sessionsLoadedMsg published e, probes)" "s \<in> set published"
  then obtain s0 where "s = fst (enrichSession json w f s0)" "Slug s0 = BranchToSlug (Branch s0)"
    by (rule published_session)
  then show "Slug s \<noteq> []"
    using enrichSession_frame [of json w f s0] BranchToSlug_nonempty by simp
qed

lemma example_parseBlock:
  "parseBlock (''worktree /tmp/bare'' @ [NL] @ ''bare'') =
     Some \<lparr>Path = ''/tmp/bare'', Branch = [], Slug = ''unknown'', NeedsInput = False,
           TmuxRunning = False, PR = None\<rparr>"
  by code_simp

text \<open>The third worktree of the example has no branch line.\<close>

theorem published_slug_nonempty_witness:
  "parseBlock (''worktree /tmp/bare'' @ [NL] @ ''bare'') =
     Some \<lparr>Path = ''/tmp/bare'', Branch = [], Slug = ''unknown'', NeedsInput = False,
           TmuxRunning = False, PR = None\<rparr> \<and>
   (case fst (fetchSessionsCmd exampleJSON exampleWorld (Some gitLab)) of
      sessionsLoadedMsg published e \<Rightarrow> map Slug published | _ \<Rightarrow> []) =
     [''main'', ''fix-login-bug'', ''unknown'']"
  using published_slug_nonempty example_parseBlock
  by (simp add: example_fetch_gitLab)

text \<open>
  Claim C4. On both backends \<open>FetchPR\<close> never returns an error; when the command-line
  call fails, and when its output is not decoded, it returns no review and no error.
\<close>

theorem FetchPR_failure_is_absent:
  "snd (FetchPR f json w branch) = None \<and>
   (\<forall>err. glab_mr_list w branch = Inl err \<longrightarrow> FetchPR gitLab json w branch = (None, None)) \<and>
   (\<forall>err. gh_pr_list w branch = Inl err \<longrightarrow> FetchPR gitHub json w branch = (None, None)) \<and>
   (\<forall>out err. glab_mr_list w branch = Inr out \<and> unmarshal_glabMRs json out = Inl err \<longrightarrow>
      FetchPR gitLab json w branch = (None, None)) \<and>
   (\<forall>out err. gh_pr_list w branch = Inr out \<and> unmarshal_ghPRs json out = Inl err \<longrightarrow>
      FetchPR gitHub json w branch = (None, None))"
  by (simp add: FetchPR_no_error gitLab_FetchPR_def gitHub_FetchPR_def)

text \<open>In the example world the call fails for \<open>main\<close> and prints no JSON for \<open>feat/x\<close>.\<close>

theorem FetchPR_failure_is_absent_witness:
  "glab_mr_list exampleWorld ''main'' = Inl ''exit status 1'' \<and>
   gh_pr_list exampleWorld ''main'' = Inl ''exit status 1'' \<and>
   glab_mr_list exampleWorld ''feat/x'' = Inr ''<html>'' \<and>
   gh_pr_list exampleWorld ''feat/x'' = Inr ''<html>'' \<and>
   unmarshal_glabMRs exampleJSON ''<html>'' = Inl ''invalid character'' \<and>
   unmarshal_ghPRs exampleJSON ''<html>'' = Inl ''invalid character'' \<and>
   map (\<lambda>(f, branch). FetchPR f exampleJSON exampleWorld branch)
     [(gitLab, ''main''), (gitHub, ''main''), (gitLab, ''feat/x''), (gitHub, ''feat/x'')] =
     [(None, None), (None, None), (None, None), (None, None)]"
  using FetchPR_failure_is_absent [of gitLab exampleJSON exampleWorld "''main''"]
        FetchPR_failure_is_absent [of gitHub exampleJSON exampleWorld "''feat/x''"]
  by (simp add: exampleWorld_def exampleJSON_def)

text \<open>
  Claim C5. When the forge returns a non-empty list of candidates for the branch of a
  session, the enrichment attaches one review to the session: the one made from the
  first candidate whose state is the forge's open state ("opened" for GitLab, "OPEN" for
  GitHub) when there is one, and from the first candidate otherwise (\<open>preferOpen\<close>).
\<close>

theorem FetchPR_prefers_open:
  assumes "mrs \<noteq> []" and "prs \<noteq> []"
  shows "(glab_mr_list w (Branch s) = Inr out \<and> unmarshal_glabMRs json out = Inr mrs \<longrightarrow>
            (\<exists>mr \<in> set mrs.
               preferOpen (\<lambda>m. mr_State m = ''opened'') mrs = Some mr \<and>
               FetchPR gitLab json w (Branch s) = (Some (glabToPR mr), None) \<and>
               PR (fst (enrichSession json w (Some gitLab) s)) = Some (glabToPR mr))) \<and>
         (gh_pr_list w (Branch s) = Inr out' \<and> unmarshal_ghPRs json out' = Inr prs \<longrightarrow>
            (\<exists>pr \<in> set prs.
               preferOpen (\<lambda>p. gh_State p = ''OPEN'') prs = Some pr \<and>
               FetchPR gitHub json w (Branch s) = (Some (ghToPR pr), None) \<and>
               PR (fst (enrichSession json w (Some gitHub) s)) = Some (ghToPR pr)))"
proof -
  have sel: "\<exists>c \<in> set cands. preferOpen isOpen cands = Some c" if "cands \<noteq> []"
    for isOpen :: "'a \<Rightarrow> bool" and cands
    using that
    by (cases cands) (auto simp: preferOpen_def find_Some_iff split: option.splits)
  show ?thesis
    using sel [OF assms(1), of "\<lambda>m. mr_State m = ''opened''"]
          sel [OF assms(2), of "\<lambda>p. gh_State p = ''OPEN''"]
    by (auto simp: gitLab_FetchPR_preferOpen gitHub_FetchPR_preferOpen enrichSession_PR)
qed


text \<open>A merged candidate followed by an open one; and the merged one alone.\<close>

theorem FetchPR_prefers_open_witness:
  "[mr3, mr7] \<noteq> [] \<and> [pr3, pr7] \<noteq> [] \<and>
   preferOpen (\<lambda>m. mr_State m = ''opened'') [mr3, mr7] = Some mr7 \<and>
   preferOpen (\<lambda>p. gh_State p = ''OPEN'') [pr3, pr7] = Some pr7 \<and>
   FetchPR gitLab exampleJSON exampleWorld ''fix/login-bug'' = (Some (glabToPR mr7), None) \<and>
   FetchPR gitHub exampleJSON exampleWorld ''fix/login-bug'' = (Some (ghToPR pr7), None) \<and>
   FetchPR gitLab exampleJSON failedWorld ''fix/login-bug'' = (Some (glabToPR mr3), None)"
proof -
  have ne: "[mr3, mr7] \<noteq> []" "[pr3, pr7] \<noteq> []" by simp_all
  have rest: "preferOpen (\<lambda>m. mr_State m = ''opened'') [mr3, mr7] = Some mr7 \<and>
   preferOpen (\<lambda>p. gh_State p = ''OPEN'') [pr3, pr7] = Some pr7 \<and>
   FetchPR gitLab exampleJSON exampleWorld ''fix/login-bug'' = (Some (glabToPR mr7), None) \<and>
   FetchPR gitHub exampleJSON exampleWorld ''fix/login-bug'' = (Some (ghToPR pr7), None) \<and>
   FetchPR gitLab exampleJSON failedWorld ''fix/login-bug'' = (Some (glabToPR mr3), None)"
    by code_simp
  show ?thesis
    using FetchPR_prefers_open [OF ne, of exampleWorld "exampleSessions ! 1" "''[mr3,mr7]''" exampleJSON "''[pr3,pr7]''"] rest
    by simp
qed

text \<open>
  Claim C8. \<open>EnsureSession\<close> called a second time with the same slug and path returns what
  the first call returned and leaves the world as the first call left it; when a session
  is registered under the slug it returns no error and changes nothing; and when it
  returns no error a session is registered under the slug.
\<close>

theorem EnsureSession_idempotent:
  "EnsureSession slug path (snd (EnsureSession slug path w)) =
     (fst (EnsureSession slug path w), snd (EnsureSession slug path w)) \<and>
   (SessionExists w slug \<longrightarrow> EnsureSession slug path w = (None, w)) \<and>
   (fst (EnsureSession slug path w) = None \<longrightarrow> SessionExists (snd (EnsureSession slug path w)) slug)"
proof (intro conjI impI)
  show "EnsureSession slug path (snd (EnsureSession slug path w)) =
     (fst (EnsureSession slug path w), snd (EnsureSession slug path w))"
    by (rule EnsureSession_twice)
  show "EnsureSession slug path w = (None, w)" if "SessionExists w slug"
    using that by (simp add: EnsureSession_def)
  show "SessionExists (snd (EnsureSession slug path w)) slug" if "fst (EnsureSession slug path w) = None"
    using that
    by (auto simp: EnsureSession_def new_session_def SessionExists_def
             split: if_splits prod.splits sum.splits option.splits)
qed

text \<open>
  In the example world \<open>main\<close> has no session and \<open>fix-login-bug\<close> has one: the first is
  created once, the second is left alone.
\<close>

theorem EnsureSession_idempotent_witness:
  "\<not> SessionExists exampleWorld ''main'' \<and>
   fst (EnsureSession ''main'' ''/repo'' exampleWorld) = None \<and>
   tmux_sessions (snd (EnsureSession ''main'' ''/repo'' exampleWorld)) =
     [(''fix-login-bug'', ''/repo/.claude/worktrees/fix-login-bug''), (''main'', ''/repo'')] \<and>
   fst (EnsureSession ''main'' ''/repo'' (snd (EnsureSession ''main'' ''/repo'' exampleWorld))) = None \<and>
   tmux_sessions (snd (EnsureSession ''main'' ''/repo'' (snd (EnsureSession ''main'' ''/repo'' exampleWorld)))) =
     [(''fix-login-bug'', ''/repo/.claude/worktrees/fix-login-bug''), (''main'', ''/repo'')] \<and>
   SessionExists exampleWorld ''fix-login-bug'' \<and>
   fst (EnsureSession ''fix-login-bug'' ''/elsewhere'' exampleWorld) = None \<and>
   tmux_sessions (snd (EnsureSession ''fix-login-bug'' ''/elsewhere'' exampleWorld)) =
     [(''fix-login-bug'', ''/repo/.claude/worktrees/fix-login-bug'')]"
proof -
  have ev: "\<not> SessionExists exampleWorld ''main'' \<and>
   fst (EnsureSession ''main'' ''/repo'' exampleWorld) = None \<and>
   tmux_sessions (snd (EnsureSession ''main'' ''/repo'' exampleWorld)) =
     [(''fix-login-bug'', ''/repo/.claude/worktrees/fix-login-bug''), (''main'', ''/repo'')] \<and>
   SessionExists exampleWorld ''fix-login-bug'' \<and>
   tmux_sessions exampleWorld = [(''fix-login-bug'', ''/repo/.claude/worktrees/fix-login-bug'')]"
    by code_simp
  show ?thesis
    using ev EnsureSession_idempotent [of "''main''" "''/repo''" exampleWorld]
      EnsureSession_idempotent [of "''fix-login-bug''" "''/elsewhere''" exampleWorld]
    by simp
qed

text \<open>
  Claim C2, as stated, fails: the claim has the state machine stay in the current state
  after every failed task. Here the failure of an update-review task arrives in state
  ManagePR; the error goes to the status line and the state becomes Normal.
\<close>

theorem failed_update_review_leaves_state:
  "state (exampleModel stateManagePR (Some gitLab)) = stateManagePR \<and>
   map_option (\<lambda>(m, cmds). (state m, statusLevel m, statusText m))
     (Update exampleUI exampleWorld (exampleModel stateManagePR (Some gitLab))
        (prUpdatedMsg (Some ''glab mr update: 403''))) =
     Some (stateNormal, statusError, mark_fail @ '' glab mr update: 403'')"
  by (simp add: Update_def exampleModel_def setStatus_def)

text \<open>
  Claim C2, amended. In every state \<open>m\<close>, a failed task has its error message recorded.
  For create-worktree, commit and create-review the message goes to \<open>inputErr\<close>, nothing
  else changes and nothing is dispatched. For push it goes to the status line with level
  error, the state stays, and a refresh and the timed clear are dispatched. For
  update-review it goes to the status line with level error, the state becomes Normal
  and the timed clear is dispatched. For delete-worktree it goes to \<open>inputErr\<close>.
\<close>

theorem task_failure_recorded:
  "Update ui w m (worktreeCreatedMsg slug path (Some e)) = Some (m\<lparr>inputErr := e\<rparr>, []) \<and>
   Update ui w m (commitResultMsg (Some e)) = Some (m\<lparr>inputErr := e\<rparr>, []) \<and>
   Update ui w m (prCreatedMsg (Some e)) = Some (m\<lparr>inputErr := e\<rparr>, []) \<and>
   Update ui w m (pushResultMsg (Some e)) =
     Some (m\<lparr>statusText := mark_fail @ '' push failed: '' @ e, statusLevel := statusError,
             loading := True\<rparr>,
           [FetchSessions (forge m), clearStatusCmd]) \<and>
   Update ui w m (prUpdatedMsg (Some e)) =
     Some (m\<lparr>statusText := mark_fail @ '' '' @ e, statusLevel := statusError,
             state := stateNormal\<rparr>,
           [clearStatusCmd]) \<and>
   map_option (\<lambda>(m', cmds). inputErr m') (Update ui w m (worktreeRemovedMsg (Some e))) = Some e"
  by (simp add: Update_def setStatus_def)

text \<open>The six failures arriving in state CreatePR: the state, \<open>inputErr\<close> and the status text after each.\<close>

theorem task_failure_recorded_witness:
  "map (\<lambda>msg. map_option (\<lambda>(m, cmds). (state m, inputErr m, statusText m))
          (Update exampleUI exampleWorld (exampleModel stateCreatePR (Some gitLab)) msg))
     [worktreeCreatedMsg [] [] (Some ''boom''), commitResultMsg (Some ''boom''),
      prCreatedMsg (Some ''boom''), pushResultMsg (Some ''boom''),
      prUpdatedMsg (Some ''boom'')] =
   [Some (stateCreatePR, ''boom'', []), Some (stateCreatePR, ''boom'', []),
    Some (stateCreatePR, ''boom'', []), Some (stateCreatePR, [], mark_fail @ '' push failed: boom''),
    Some (stateNormal, [], mark_fail @ '' boom'')] \<and>
   map_option (\<lambda>(m', cmds). inputErr m')
     (Update exampleUI exampleWorld (exampleModel stateCreatePR (Some gitLab))
        (worktreeRemovedMsg (Some ''boom''))) = Some ''boom''"
  using task_failure_recorded
          [of exampleUI exampleWorld "exampleModel stateCreatePR (Some gitLab)" "[]" "[]" "''boom''"]
  by (simp add: exampleModel_def)

text \<open>
  Claim C3, as stated, fails: the claim has the error message of a failed push stay until
  the user acts. Here a push fails in state Normal: the error text is set together with
  the command that delivers \<open>clearStatusMsg\<close> 3000 ms later, and that message alone
  empties the text.
\<close>

theorem push_error_cleared_by_timer:
  "map_option (\<lambda>(m, cmds). (statusLevel m, statusText m, cmds))
     (Update exampleUI exampleWorld (exampleModel stateNormal (Some gitLab))
        (pushResultMsg (Some ''rejected''))) =
     Some (statusError, mark_fail @ '' push failed: rejected'',
           [FetchSessions (Some gitLab), Tick 3000 clearStatusMsg]) \<and>
   map_option (\<lambda>(m, cmds). (statusLevel m, statusText m))
     (run exampleUI exampleWorld (exampleModel stateNormal (Some gitLab))
        [pushResultMsg (Some ''rejected''), clearStatusMsg]) =
     Some (statusError, [])"
  by (simp add: Update_def exampleModel_def setStatus_def clearStatusCmd_def)

text \<open>
  Claim C3, amended. The timed clear is \<open>clearStatusMsg\<close> delivered after 3000 ms, and
  it empties the status text whatever its level. Every message that sets a status text
  dispatches the timed clear with it: the notices of success (committed, PR created, PR
  updated, pushed) and the errors of a failed push and a failed update-review. The errors
  of a failed create-worktree, commit, create-review and delete-worktree go to
  \<open>inputErr\<close>, dispatch nothing, and the timed clear leaves them as they are.
\<close>

theorem status_line_auto_clear:
  "clearStatusCmd = Tick 3000 clearStatusMsg \<and>
   Update ui w m clearStatusMsg = Some (m\<lparr>statusText := []\<rparr>, []) \<and>
   (\<forall>msg \<in> {commitResultMsg None, prCreatedMsg None, prUpdatedMsg None, pushResultMsg None,
              pushResultMsg (Some er), prUpdatedMsg (Some er)}.
      \<exists>m' cmds. Update ui w m msg = Some (m', cmds) \<and> statusText m' \<noteq> [] \<and>
        clearStatusCmd \<in> set cmds \<and>
        (statusLevel m' = statusError) = (msg \<in> {pushResultMsg (Some er), prUpdatedMsg (Some er)})) \<and>
   (\<forall>msg \<in> {worktreeCreatedMsg slug path (Some er), commitResultMsg (Some er),
              prCreatedMsg (Some er), worktreeRemovedMsg (Some er)}.
      \<exists>m'. Update ui w m msg = Some (m', []) \<and> inputErr m' = er \<and>
        statusText m' = statusText m \<and>
        map_option (inputErr \<circ> fst) (Update ui w m' clearStatusMsg) = Some er)"
  by (simp add: Update_def setStatus_def clearStatusCmd_def mark_ok_def mark_fail_def)


text \<open>Two successes, two failures on the status line, and a failure that goes to \<open>inputErr\<close>.\<close>

theorem status_line_auto_clear_witness:
  "map (\<lambda>msg. map_option (\<lambda>(m, cmds). (statusLevel m, statusText m \<noteq> [], clearStatusCmd \<in> set cmds, inputErr m))
          (Update exampleUI exampleWorld (exampleModel stateNormal (Some gitLab)) msg))
     [commitResultMsg None, pushResultMsg None, pushResultMsg (Some ''rejected''),
      prUpdatedMsg (Some ''rejected''), prCreatedMsg (Some ''rejected'')] =
   [Some (statusInfo, True, True, []), Some (statusInfo, True, True, []),
    Some (statusError, True, True, []), Some (statusError, True, True, []),
    Some (statusInfo, False, False, ''rejected'')]"
  using status_line_auto_clear [of exampleUI exampleWorld "exampleModel stateNormal (Some gitLab)" "''rejected''" "[]" "[]"]
  by (simp add: exampleModel_def Update_def setStatus_def mark_ok_def mark_fail_def)

end
